theory Spec2Isabelle
  imports Complex_Main "HOL-Library.Sublist"
begin

section \<open>JavaScript values\<close>

text \<open>
  The handlers pass around untyped JavaScript values: the object parsed from the analysis
  script's output, the \<open>jsonb\<close> columns of a database row, the object literal handed to
  \<open>res.json\<close>. They are modelled by one datatype. Strings are \<open>string\<close> (8-bit
  characters), numbers are exact rationals (an IEEE double is a rational; rounding is not
  modelled), an object is an association list in insertion order.
\<close>

datatype jsval =
    JUndefined
  | JNull
  | JBool bool
  | JNum rat
  | JStr string
  | JArr "jsval list"
  | JObj "(string \<times> jsval) list"

text \<open>Truthiness, as \<open>!x\<close>, \<open>x || y\<close> and \<open>if (x)\<close> use it.\<close>

fun truthy :: "jsval \<Rightarrow> bool" where
  "truthy JUndefined = False"
| "truthy JNull = False"
| "truthy (JBool b) = b"
| "truthy (JNum n) = (n \<noteq> 0)"
| "truthy (JStr s) = (s \<noteq> [])"
| "truthy (JArr xs) = True"
| "truthy (JObj kvs) = True"

text \<open>\<open>a || b\<close>: the left operand when it is truthy, the right one otherwise.\<close>

definition js_or :: "jsval \<Rightarrow> jsval \<Rightarrow> jsval" where
  "js_or a b = (if truthy a then a else b)"

text \<open>
  Reading a property \<open>v.k\<close> of a value that is neither \<open>null\<close> nor \<open>undefined\<close>.
  When a key occurs twice in an object the later entry is the one \<open>JSON.parse\<close> keeps.
  Every key the handlers read (\<open>success\<close>, \<open>severity\<close>, \<open>health_assessment\<close>, ...) is an
  own property or absent: none is inherited from a prototype, so arrays, strings, numbers
  and booleans answer \<open>undefined\<close>.
\<close>

fun get_prop :: "jsval \<Rightarrow> string \<Rightarrow> jsval" where
  "get_prop (JObj kvs) k = (case map_of (rev kvs) k of None \<Rightarrow> JUndefined | Some v \<Rightarrow> v)"
| "get_prop v k = JUndefined"

text \<open>Optional chaining \<open>v?.k\<close>.\<close>

fun get_prop_opt :: "jsval \<Rightarrow> string \<Rightarrow> jsval" where
  "get_prop_opt JUndefined k = JUndefined"
| "get_prop_opt JNull k = JUndefined"
| "get_prop_opt v k = get_prop v k"

text \<open>\<open>String.prototype.startsWith\<close>.\<close>

definition startsWith :: "string \<Rightarrow> string \<Rightarrow> bool" where
  "startsWith s p = (take (length p) s = p)"

section \<open>JSON text\<close>

text \<open>
  \<open>JSON.parse\<close> belongs to the JavaScript engine, not to the repository. It is modelled by
  the JSON grammar (ECMA-404): a lexer over the characters and a parser over the tokens that
  keeps a stack of the containers still open. \<open>None\<close> is the \<open>SyntaxError\<close>. Strings hold
  8-bit characters, so a unicode escape above \<open>00FF\<close> has no image here and is not accepted;
  no text used below contains one.
\<close>

datatype token =
    TLBrace | TRBrace | TLBracket | TRBracket | TColon | TComma
  | TString string | TNumber rat | TTrue | TFalse | TNull

definition char_code :: "char \<Rightarrow> nat" where
  "char_code c = of_char c"

definition is_ws :: "char \<Rightarrow> bool" where
  "is_ws c = (char_code c = 32 \<or> char_code c = 9 \<or> char_code c = 10 \<or> char_code c = 13)"

definition is_digit :: "char \<Rightarrow> bool" where
  "is_digit c = (48 \<le> char_code c \<and> char_code c \<le> 57)"

definition hex_val :: "char \<Rightarrow> nat option" where
  "hex_val c =
     (if 48 \<le> char_code c \<and> char_code c \<le> 57 then Some (char_code c - 48)
      else if 97 \<le> char_code c \<and> char_code c \<le> 102 then Some (char_code c - 87)
      else if 65 \<le> char_code c \<and> char_code c \<le> 70 then Some (char_code c - 55)
      else None)"

definition digits_val :: "string \<Rightarrow> nat" where
  "digits_val ds = foldl (\<lambda>n c. 10 * n + (char_code c - 48)) 0 ds"

definition hex4 :: "char \<Rightarrow> char \<Rightarrow> char \<Rightarrow> char \<Rightarrow> nat option" where
  "hex4 a b c d =
     (case (hex_val a, hex_val b, hex_val c, hex_val d) of
        (Some x, Some y, Some z, Some w) \<Rightarrow> Some (((x * 16 + y) * 16 + z) * 16 + w)
      | _ \<Rightarrow> None)"

definition unescape :: "char \<Rightarrow> char option" where
  "unescape e =
     (if e = CHR 0x22 then Some (CHR 0x22)
      else if e = CHR 0x5C then Some (CHR 0x5C)
      else if e = CHR ''/'' then Some (CHR ''/'')
      else if e = CHR ''b'' then Some (CHR 0x08)
      else if e = CHR ''f'' then Some (CHR 0x0C)
      else if e = CHR ''n'' then Some (CHR 0x0A)
      else if e = CHR ''r'' then Some (CHR 0x0D)
      else if e = CHR ''t'' then Some (CHR 0x09)
      else None)"

text \<open>The text after an opening quote: the string's characters and what follows the closing quote.\<close>

definition cons_char :: "char \<Rightarrow> (string \<times> string) option \<Rightarrow> (string \<times> string) option" where
  "cons_char c r = (case r of None \<Rightarrow> None | Some (s, rest) \<Rightarrow> Some (c # s, rest))"

fun lex_escape :: "string \<Rightarrow> (char \<times> string) option" where
  "lex_escape [] = None"
| "lex_escape (e # cs) =
     (if e = CHR ''u'' then
        (case cs of
           a # b # c # d # rest \<Rightarrow>
             (case hex4 a b c d of
                None \<Rightarrow> None
              | Some n \<Rightarrow> if n < 256 then Some (char_of n, rest) else None)
         | _ \<Rightarrow> None)
      else map_option (\<lambda>ch. (ch, cs)) (unescape e))"

lemma lex_escape_shorter: "lex_escape s = Some (ch, r) \<Longrightarrow> length r < length s"
proof (cases s)
  case Nil
  then show "lex_escape s = Some (ch, r) \<Longrightarrow> ?thesis" by simp
next
  case (Cons e cs)
  assume a: "lex_escape s = Some (ch, r)"
  show ?thesis
  proof (cases "e = CHR ''u''")
    case False
    with a Cons show ?thesis by auto
  next
    case True
    with a Cons have "\<exists>a b c d. cs = a # b # c # d # r"
      by (simp split: list.splits option.splits if_splits)
    with Cons show ?thesis by auto
  qed
qed

lemma cons_char_Some: "cons_char c x = Some (v, r) \<Longrightarrow> \<exists>v'. x = Some (v', r)"
  by (auto simp: cons_char_def split: option.splits)

function lex_string :: "string \<Rightarrow> (string \<times> string) option" where
  "lex_string [] = None"
| "lex_string (c # cs) =
     (if c = CHR 0x22 then Some ([], cs)
      else if c = CHR 0x5C then
        (case lex_escape cs of
           None \<Rightarrow> None
         | Some (ch, rest) \<Rightarrow> cons_char ch (lex_string rest))
      else if char_code c < 32 then None
      else cons_char c (lex_string cs))"
  by pat_completeness auto
termination
proof (relation "measure length", goal_cases)
  case (2 c cs x2 ch rest)
  then show ?case using lex_escape_shorter [of cs ch rest] by simp
qed auto

lemma lex_string_shorter: "lex_string s = Some (v, r) \<Longrightarrow> length r < length s"
proof (induction s arbitrary: v r rule: lex_string.induct)
  case 1
  then show ?case by simp
next
  case (2 c cs)
  show ?case
  proof (cases "c = CHR 0x22")
    case True
    with "2.prems" show ?thesis by simp
  next
    case q: False
    show ?thesis
    proof (cases "c = CHR 0x5C")
      case False
      with q "2.prems" obtain v' where v': "lex_string cs = Some (v', r)" "\<not> char_code c < 32"
        by (auto split: if_splits dest: cons_char_Some)
      from "2.IH"(2) [OF q False v'(2) v'(1)] show ?thesis by simp
    next
      case True
      with q "2.prems" obtain ch rest v' where e: "lex_escape cs = Some (ch, rest)"
        and v': "lex_string rest = Some (v', r)"
        by (auto split: option.splits dest: cons_char_Some)
      from "2.IH"(1) [OF q True e refl v'] lex_escape_shorter [OF e] show ?thesis by simp
    qed
  qed
qed

text \<open>Numbers: \<open>-? int frac? exp?\<close>, the integer part without a leading zero.\<close>

definition lex_int :: "string \<Rightarrow> (nat \<times> string) option" where
  "lex_int s =
     (let ds = takeWhile is_digit s
      in if ds = [] \<or> (length ds > 1 \<and> hd ds = CHR ''0'') then None
         else Some (digits_val ds, dropWhile is_digit s))"

definition lex_frac :: "string \<Rightarrow> (rat \<times> string) option" where
  "lex_frac s =
     (case s of
        [] \<Rightarrow> Some (0, s)
      | c # cs \<Rightarrow>
          if c = CHR ''.'' then
            (let ds = takeWhile is_digit cs
             in if ds = [] then None
                else Some (of_nat (digits_val ds) / 10 ^ length ds, dropWhile is_digit cs))
          else Some (0, s))"

definition lex_sign :: "string \<Rightarrow> bool \<times> string" where
  "lex_sign s =
     (case s of
        [] \<Rightarrow> (False, s)
      | c # cs \<Rightarrow>
          if c = CHR ''-'' then (True, cs) else if c = CHR ''+'' then (False, cs) else (False, s))"

definition lex_exp :: "string \<Rightarrow> (int \<times> string) option" where
  "lex_exp s =
     (case s of
        [] \<Rightarrow> Some (0, s)
      | c # cs \<Rightarrow>
          if c = CHR ''e'' \<or> c = CHR ''E'' then
            (let (neg, cs1) = lex_sign cs; ds = takeWhile is_digit cs1
             in if ds = [] then None
                else Some (if neg then - int (digits_val ds) else int (digits_val ds),
                           dropWhile is_digit cs1))
          else Some (0, s))"

definition scale10 :: "rat \<Rightarrow> int \<Rightarrow> rat" where
  "scale10 m e = (if e < 0 then m / 10 ^ nat (- e) else m * 10 ^ nat e)"

definition lex_number :: "string \<Rightarrow> (rat \<times> string) option" where
  "lex_number s =
     (let neg = (s \<noteq> [] \<and> hd s = CHR ''-'');
          s1 = (if neg then tl s else s)
      in case lex_int s1 of
           None \<Rightarrow> None
         | Some (i, s2) \<Rightarrow>
             (case lex_frac s2 of
                None \<Rightarrow> None
              | Some (f, s3) \<Rightarrow>
                  (case lex_exp s3 of
                     None \<Rightarrow> None
                   | Some (e, s4) \<Rightarrow>
                       Some (scale10 (if neg then - (of_nat i + f) else of_nat i + f) e, s4))))"

lemma lex_int_shorter: "lex_int s = Some (n, r) \<Longrightarrow> length r < length s"
proof -
  assume a: "lex_int s = Some (n, r)"
  then have ne: "takeWhile is_digit s \<noteq> []" and r: "r = dropWhile is_digit s"
    by (auto simp: lex_int_def Let_def split: if_splits)
  have "length (takeWhile is_digit s) + length (dropWhile is_digit s) = length s"
    by (metis length_append takeWhile_dropWhile_id)
  with ne r show ?thesis by (cases "takeWhile is_digit s") auto
qed

lemma lex_frac_le: "lex_frac s = Some (f, r) \<Longrightarrow> length r \<le> length s"
  using length_dropWhile_le [of is_digit "tl s"]
  by (cases s) (auto simp: lex_frac_def Let_def split: if_splits)

lemma lex_sign_le: "lex_sign s = (b, r) \<Longrightarrow> length r \<le> length s"
  by (cases s) (auto simp: lex_sign_def split: if_splits)

lemma lex_exp_le: "lex_exp s = Some (e, r) \<Longrightarrow> length r \<le> length s"
proof (cases s)
  case Nil
  then show "lex_exp s = Some (e, r) \<Longrightarrow> ?thesis" by (simp add: lex_exp_def)
next
  case (Cons c cs)
  assume a: "lex_exp s = Some (e, r)"
  obtain b cs1 where sg: "lex_sign cs = (b, cs1)" by (cases "lex_sign cs")
  from a Cons sg have "r = s \<or> r = dropWhile is_digit cs1"
    by (auto simp: lex_exp_def Let_def split: if_splits)
  moreover have "length (dropWhile is_digit cs1) \<le> length cs"
    using length_dropWhile_le [of is_digit cs1] lex_sign_le [OF sg] by simp
  ultimately show ?thesis using Cons by auto
qed

lemma lex_number_shorter:
  assumes "lex_number s = Some (v, r)"
  shows "length r < length s"
proof -
  define s1 where "s1 = (if s \<noteq> [] \<and> hd s = CHR ''-'' then tl s else s)"
  from assms obtain i s2 f s3 e where
    i: "lex_int s1 = Some (i, s2)" and f: "lex_frac s2 = Some (f, s3)"
    and e: "lex_exp s3 = Some (e, r)"
    unfolding lex_number_def Let_def s1_def [symmetric]
    by (auto split: option.splits)
  have "length s1 \<le> length s" unfolding s1_def by simp
  with lex_int_shorter [OF i] lex_frac_le [OF f] lex_exp_le [OF e] show ?thesis by linarith
qed

function lex :: "string \<Rightarrow> token list option" where
  "lex [] = Some []"
| "lex (c # cs) =
     (if is_ws c then lex cs
      else if c = CHR ''{'' then map_option (Cons TLBrace) (lex cs)
      else if c = CHR ''}'' then map_option (Cons TRBrace) (lex cs)
      else if c = CHR ''['' then map_option (Cons TLBracket) (lex cs)
      else if c = CHR '']'' then map_option (Cons TRBracket) (lex cs)
      else if c = CHR '':'' then map_option (Cons TColon) (lex cs)
      else if c = CHR '','' then map_option (Cons TComma) (lex cs)
      else if c = CHR 0x22 then
        (case lex_string cs of
           None \<Rightarrow> None
         | Some (s, rest) \<Rightarrow> map_option (Cons (TString s)) (lex rest))
      else if c = CHR ''-'' \<or> is_digit c then
        (case lex_number (c # cs) of
           None \<Rightarrow> None
         | Some (n, rest) \<Rightarrow> map_option (Cons (TNumber n)) (lex rest))
      else if take 4 (c # cs) = ''true'' then map_option (Cons TTrue) (lex (drop 3 cs))
      else if take 5 (c # cs) = ''false'' then map_option (Cons TFalse) (lex (drop 4 cs))
      else if take 4 (c # cs) = ''null'' then map_option (Cons TNull) (lex (drop 3 cs))
      else None)"
  by pat_completeness auto
termination
proof (relation "measure length", goal_cases)
  case (9 c cs x2 s rest)
  from lex_string_shorter [of cs s rest] 9(9,10) show ?case by simp
next
  case (10 c cs x2 n rest)
  from lex_number_shorter [of "c # cs" n rest] 10(10,11) show ?case by simp
qed simp_all



text \<open>
  The parser. A frame is an open array with its elements so far, an open object with its
  entries so far, or an open object whose next key has been read.
\<close>

datatype frame =
    FArr "jsval list"
  | FObj "(string \<times> jsval) list"
  | FKey "(string \<times> jsval) list" string

datatype pmode = MValue | MArrFirst | MObjFirst | MKey | MColon | MAfter | MDone jsval

fun push_value :: "jsval \<Rightarrow> frame list \<Rightarrow> (pmode \<times> frame list) option" where
  "push_value v [] = Some (MDone v, [])"
| "push_value v (FArr xs # st) = Some (MAfter, FArr (xs @ [v]) # st)"
| "push_value v (FKey kvs k # st) = Some (MAfter, FObj (kvs @ [(k, v)]) # st)"
| "push_value v (FObj kvs # st) = None"

fun start_value :: "token \<Rightarrow> frame list \<Rightarrow> (pmode \<times> frame list) option" where
  "start_value TLBrace st = Some (MObjFirst, FObj [] # st)"
| "start_value TLBracket st = Some (MArrFirst, FArr [] # st)"
| "start_value (TString s) st = push_value (JStr s) st"
| "start_value (TNumber n) st = push_value (JNum n) st"
| "start_value TTrue st = push_value (JBool True) st"
| "start_value TFalse st = push_value (JBool False) st"
| "start_value TNull st = push_value JNull st"
| "start_value t st = None"

fun parse_step :: "token \<Rightarrow> pmode \<times> frame list \<Rightarrow> (pmode \<times> frame list) option" where
  "parse_step t (MValue, st) = start_value t st"
| "parse_step TRBracket (MArrFirst, FArr xs # st) = push_value (JArr xs) st"
| "parse_step t (MArrFirst, st) = start_value t st"
| "parse_step TRBrace (MObjFirst, FObj kvs # st) = push_value (JObj kvs) st"
| "parse_step (TString k) (MObjFirst, FObj kvs # st) = Some (MColon, FKey kvs k # st)"
| "parse_step (TString k) (MKey, FObj kvs # st) = Some (MColon, FKey kvs k # st)"
| "parse_step TColon (MColon, st) = Some (MValue, st)"
| "parse_step TComma (MAfter, FArr xs # st) = Some (MValue, FArr xs # st)"
| "parse_step TComma (MAfter, FObj kvs # st) = Some (MKey, FObj kvs # st)"
| "parse_step TRBracket (MAfter, FArr xs # st) = push_value (JArr xs) st"
| "parse_step TRBrace (MAfter, FObj kvs # st) = push_value (JObj kvs) st"
| "parse_step t s = None"

fun parse_tokens :: "token list \<Rightarrow> pmode \<times> frame list \<Rightarrow> jsval option" where
  "parse_tokens [] (MDone v, []) = Some v"
| "parse_tokens [] s = None"
| "parse_tokens (t # ts) s =
     (case parse_step t s of None \<Rightarrow> None | Some s' \<Rightarrow> parse_tokens ts s')"

definition json_parse :: "string \<Rightarrow> jsval option" where
  "json_parse s = (case lex s of None \<Rightarrow> None | Some ts \<Rightarrow> parse_tokens ts (MValue, []))"


section \<open>The pose-analysis route\<close>

text \<open>
  \<open>router.post('/detect', upload.single('image'), ...)\<close>. What the handler reads and
  changes outside itself is explicit:
  \<^item> the request after the upload middleware: \<open>req.file\<close> is absent or carries the path
    the image was stored under;
  \<^item> the file system, as the set of paths that exist (\<open>fs.existsSync\<close>, \<open>fs.unlinkSync\<close>);
  \<^item> the three paths the module computes from its own directory;
  \<^item> the analysis process: given its arguments it either never exits (\<open>None\<close>) or exits
    with a status (\<open>null\<close> when a signal ended it) and what it wrote to its two streams.
    The script is assumed not to change the file system, and the process to start: an
    \<open>error\<close> event of the child has no listener in the handler;
  \<^item> \<open>JSON.parse\<close>, a parameter of the handler: on a text that starts with a brace it
    returns an object (its entries, \<open>Inr\<close>) or throws (\<open>Inl\<close> the error's message).
  The result is the response sent, if any, the file system afterwards, the processes
  spawned and the calls of \<open>fs.unlinkSync\<close> that removed a file.
\<close>

record multer_file =
  path :: string

record request =
  req_file :: "multer_file option"

record deployment =
  modelPath :: string
  bumblefootModelPath :: string
  sequentialScriptPath :: string

record proc_result =
  exit_code :: "int option"
  stdout :: string
  stderr :: string

record response =
  status :: nat
  body :: jsval

record outcome =
  sent :: "response option"
  files :: "string set"
  spawned :: "string list list"
  unlinked :: "string list"

text \<open>\<open>res.json(b)\<close> answers with status 200, \<open>res.status(s).json(b)\<close> with \<open>s\<close>.\<close>

definition res_json :: "jsval \<Rightarrow> response" where
  "res_json b = \<lparr>status = 200, body = b\<rparr>"

definition res_status_json :: "nat \<Rightarrow> jsval \<Rightarrow> response" where
  "res_status_json s b = \<lparr>status = s, body = b\<rparr>"

definition error_body :: "string \<Rightarrow> jsval" where
  "error_body msg = JObj [(''success'', JBool False), (''error'', JStr msg)]"

text \<open>The payload of the branch taken when the pose model file is not found.\<close>

definition keypoint :: "string \<Rightarrow> rat \<Rightarrow> rat \<Rightarrow> rat \<Rightarrow> jsval" where
  "keypoint n x y c =
     JObj [(''name'', JStr n), (''x'', JNum x), (''y'', JNum y), (''confidence'', JNum c)]"

definition mock_keypoints :: jsval where
  "mock_keypoints =
     JArr [keypoint ''beak_tip'' 100 50 (9 / 10),
           keypoint ''eye'' 120 60 (85 / 100),
           keypoint ''comb_top'' 110 30 (8 / 10)]"

definition mock_recommendations :: jsval where
  "mock_recommendations =
     JArr [JStr ''AI models not deployed - showing mock data'',
           JStr ''Upload successful - frontend integration working'',
           JStr ''Deploy AI models to Railway to enable real analysis'']"

definition mock_payload :: jsval where
  "mock_payload =
     JObj [(''success'', JBool True),
           (''keypoints'', mock_keypoints),
           (''confidence'', JNum (85 / 100)),
           (''pose_confidence'', JNum (85 / 100)),
           (''health_assessment'', JStr ''healthy''),
           (''recommendations'', mock_recommendations),
           (''combined_analysis'',
              JObj [(''health_assessment'', JStr ''healthy''),
                    (''combined_confidence'', JNum (85 / 100)),
                    (''recommendations'', mock_recommendations),
                    (''specific_findings'', JArr [])]),
           (''injury_analysis'',
              JObj [(''risk_level'', JStr ''low''),
                    (''detected_issues'', JArr []),
                    (''recommendations'', mock_recommendations)])]"

text \<open>
  \<open>output.match(/\{.*\}/s)\<close>: the match starts at the first opening brace and, the star
  being greedy and the dot matching every character, ends at the last closing brace after
  it. There is no match when no closing brace follows the first opening one.
\<close>

definition jsonMatch :: "string \<Rightarrow> string option" where
  "jsonMatch output =
     (let start = dropWhile (\<lambda>c. c \<noteq> CHR ''{'') output
      in if start = [] then None
         else
           let m = rev (dropWhile (\<lambda>c. c \<noteq> CHR ''}'') (rev (tl start)))
           in if m = [] then None else Some (CHR ''{'' # m))"

text \<open>The response built from the parsed result when its \<open>success\<close> is truthy.\<close>

definition risk_level :: "jsval \<Rightarrow> jsval" where
  "risk_level result =
     (if get_prop result ''health_assessment'' = JStr ''injured'' then JStr ''high''
      else JStr ''low'')"

definition success_body :: "jsval \<Rightarrow> jsval" where
  "success_body result =
     JObj [(''success'', JBool True),
           (''analysis_type'',
              js_or (get_prop result ''analysis_type'') (JStr ''sequential_validation'')),
           (''overall_status'', get_prop result ''overall_status''),
           (''keypoints'',
              js_or (get_prop_opt (get_prop result ''pose_detection'') ''keypoints'') (JArr [])),
           (''confidence'',
              js_or (get_prop_opt (get_prop result ''pose_detection'') ''pose_confidence'')
                (JNum 0)),
           (''pose_detection'', get_prop result ''pose_detection''),
           (''injury_classification'', get_prop result ''injury_classification''),
           (''combined_analysis'',
              JObj [(''health_assessment'', get_prop result ''health_assessment''),
                    (''combined_confidence'', get_prop result ''combined_confidence''),
                    (''recommendations'', get_prop result ''recommendations''),
                    (''specific_findings'', get_prop result ''specific_findings'')]),
           (''injury_analysis'',
              JObj [(''risk_level'', risk_level result),
                    (''detected_issues'', js_or (get_prop result ''specific_findings'') (JArr [])),
                    (''recommendations'', js_or (get_prop result ''recommendations'') (JArr []))])]"

definition analysis_failed_body :: "jsval \<Rightarrow> jsval" where
  "analysis_failed_body result =
     JObj [(''success'', JBool False),
           (''error'', js_or (get_prop result ''error'') (JStr ''Sequential analysis failed'')),
           (''stage'', js_or (get_prop result ''stage'') (JStr ''unknown''))]"

text \<open>The \<open>catch (parseError)\<close> branch.\<close>

definition parse_failure :: "string \<Rightarrow> string \<Rightarrow> response" where
  "parse_failure message output =
     res_status_json 500
       (error_body (''Failed to parse sequential analysis results: '' @ message
                    @ ''. Output: '' @ output))"

text \<open>What the \<open>close\<close> callback answers, after the image has been removed.\<close>

definition close_response :: "(string \<Rightarrow> string + (string \<times> jsval) list) \<Rightarrow> proc_result \<Rightarrow> response" where
  "close_response parse pr =
     (if exit_code pr \<noteq> Some 0 then
        res_status_json 500 (error_body (''Pose detection failed: '' @ stderr pr))
      else
        (case jsonMatch (stdout pr) of
           None \<Rightarrow> parse_failure ''No JSON found in output'' (stdout pr)
         | Some m \<Rightarrow>
             (case parse m of
                Inl message \<Rightarrow> parse_failure message (stdout pr)
              | Inr kvs \<Rightarrow>
                  if truthy (get_prop (JObj kvs) ''success'')
                  then res_json (success_body (JObj kvs))
                  else res_status_json 500 (analysis_failed_body (JObj kvs)))))"

text \<open>
  \<open>fs.unlinkSync\<close> throws when the path does not exist. In the \<open>close\<close> callback nothing
  catches that: the exception leaves the callback and no response is sent.
\<close>

definition unlinkSync :: "string \<Rightarrow> string set \<Rightarrow> string set option" where
  "unlinkSync p fs = (if p \<in> fs then Some (fs - {p}) else None)"

definition on_close ::
  "(string \<Rightarrow> string + (string \<times> jsval) list) \<Rightarrow> string \<Rightarrow> string list \<Rightarrow> proc_result
     \<Rightarrow> string set \<Rightarrow> outcome" where
  "on_close parse imagePath cmd pr fs =
     (case unlinkSync imagePath fs of
        None \<Rightarrow> \<lparr>sent = None, files = fs, spawned = [cmd], unlinked = []\<rparr>
      | Some fs' \<Rightarrow>
          \<lparr>sent = Some (close_response parse pr), files = fs', spawned = [cmd],
           unlinked = [imagePath]\<rparr>)"

text \<open>
  The handler. The listing of the application directory that the first branch logs reads an
  ancestor of the running module's directory and is taken to succeed.
\<close>

definition respond :: "response \<Rightarrow> string set \<Rightarrow> outcome" where
  "respond r fs = \<lparr>sent = Some r, files = fs, spawned = [], unlinked = []\<rparr>"

definition detect ::
  "(string \<Rightarrow> string + (string \<times> jsval) list) \<Rightarrow> deployment
     \<Rightarrow> (string list \<Rightarrow> proc_result option) \<Rightarrow> string set \<Rightarrow> request \<Rightarrow> outcome" where
  "detect parse d run fs req =
     (case req_file req of
        None \<Rightarrow> respond (res_status_json 400 (error_body ''No image file provided'')) fs
      | Some f \<Rightarrow>
          let imagePath = path f in
          if modelPath d \<notin> fs then respond (res_json mock_payload) fs
          else if bumblefootModelPath d \<notin> fs then
            respond (res_status_json 500 (error_body ''Bumblefoot classification model not found'')) fs
          else if sequentialScriptPath d \<notin> fs then
            respond (res_status_json 500 (error_body ''Sequential analysis script not found'')) fs
          else
            let args = [sequentialScriptPath d, imagePath, modelPath d, bumblefootModelPath d]
            in (case run args of
                  None \<Rightarrow>
                    \<lparr>sent = None, files = fs, spawned = [''python'' # args], unlinked = []\<rparr>
                | Some pr \<Rightarrow> on_close parse imagePath (''python'' # args) pr fs))"

text \<open>
  The engine's \<open>JSON.parse\<close> on the matched text, from the grammar above. The wording of
  the engine's \<open>SyntaxError\<close> is not modelled: \<open>syntax_error_message\<close> stands for it.
\<close>

definition syntax_error_message :: string where
  "syntax_error_message = ''Unexpected token in JSON''"

definition JSON_parse :: "string \<Rightarrow> string + (string \<times> jsval) list" where
  "JSON_parse s =
     (case json_parse s of
        Some (JObj kvs) \<Rightarrow> Inr kvs
      | _ \<Rightarrow> Inl syntax_error_message)"

section \<open>The resolved user identifier\<close>

text \<open>
  \<open>getUserIdFromAuth(authHeader?: string)\<close>. The header is optional (\<open>None\<close> is
  \<open>undefined\<close>). The body of the \<open>try\<close> takes \<open>authHeader.substring(7)\<close>, which cannot
  throw on a string, and returns the development UUID; the \<open>catch\<close> returns it as well.
\<close>

definition placeholder_uuid :: string where
  "placeholder_uuid = ''00000000-0000-0000-0000-000000000001''"

definition substring_from :: "nat \<Rightarrow> string \<Rightarrow> string" where
  "substring_from n s = drop n s"

definition getUserIdFromAuth :: "string option \<Rightarrow> string" where
  "getUserIdFromAuth authHeader =
     (case authHeader of
        None \<Rightarrow> placeholder_uuid
      | Some h \<Rightarrow>
          if h = [] \<or> \<not> startsWith h ''Bearer '' then placeholder_uuid
          else (let token = substring_from 7 h in placeholder_uuid))"

section \<open>Scan rows and their legacy fields\<close>

text \<open>
  A row of the \<open>scans\<close> table, as the three scan handlers read it back from the storage
  service. \<open>pose_data\<close> and \<open>injury_detections\<close> are \<open>jsonb\<close> columns and hold any JSON
  value; \<open>analysis_confidence\<close> is a number or \<open>null\<close>. Every mapper copies the columns to
  camelCase fields unchanged and then computes four legacy fields, which is the part
  modelled here.
\<close>

record scan_row =
  scan_id :: string
  scan_user_id :: string
  scan_status :: "string option"
  pose_data :: jsval
  injury_detections :: jsval
  analysis_confidence :: "rat option"

datatype severity = Low | Medium | High

record legacy_fields =
  results :: jsval
  overlay :: bool
  injuries :: "jsval list"
  severity :: severity

definition default_results :: jsval where
  "default_results =
     JObj [(''posture'', JStr ''normal''), (''wing'', JStr ''normal''),
           (''legs'', JStr ''normal''), (''movement'', JStr ''normal'')]"

text \<open>
  Reading a property of an array element throws a \<open>TypeError\<close> when the element is
  \<open>null\<close>; \<open>None\<close> is that exception, which the handler's \<open>catch\<close> turns into a 500.
\<close>

definition is_nullish :: "jsval \<Rightarrow> bool" where
  "is_nullish v = (v = JNull \<or> v = JUndefined)"

text \<open>\<open>injury_detections.map((inj) => inj.type || 'Unknown')\<close>, or \<open>[]\<close> for a non-array.\<close>

fun injury_types :: "jsval list \<Rightarrow> jsval list option" where
  "injury_types [] = Some []"
| "injury_types (e # rest) =
     (if is_nullish e then None
      else map_option (Cons (js_or (get_prop e ''type'') (JStr ''Unknown''))) (injury_types rest))"

definition legacy_injuries :: "jsval \<Rightarrow> jsval list option" where
  "legacy_injuries det = (case det of JArr xs \<Rightarrow> injury_types xs | _ \<Rightarrow> Some [])"

text \<open>\<open>xs.some((inj) => inj.severity === 'severe')\<close>: it stops at the first severe entry.\<close>

fun some_severe :: "jsval list \<Rightarrow> bool option" where
  "some_severe [] = Some False"
| "some_severe (e # rest) =
     (if is_nullish e then None
      else if get_prop e ''severity'' = JStr ''severe'' then Some True
      else some_severe rest)"

text \<open>The \<open>severity\<close> expression of \<open>getScans\<close>.\<close>

definition severity_from_injuries :: "jsval \<Rightarrow> severity option" where
  "severity_from_injuries det =
     (case det of
        JArr (x # xs) \<Rightarrow> map_option (\<lambda>b. if b then High else Medium) (some_severe (x # xs))
      | _ \<Rightarrow> Some Low)"

text \<open>
  The \<open>severity\<close> expression of \<open>getScanById\<close> and \<open>createScan\<close>. Comparing \<open>null\<close> with a
  number compares 0.
\<close>

definition severity_from_confidence :: "rat option \<Rightarrow> severity" where
  "severity_from_confidence c =
     (let x = (case c of None \<Rightarrow> 0 | Some v \<Rightarrow> v)
      in if x > 8 / 10 then High else if x > 5 / 10 then Medium else Low)"

definition getScans_legacy :: "scan_row \<Rightarrow> legacy_fields option" where
  "getScans_legacy scan =
     (case legacy_injuries (injury_detections scan) of
        None \<Rightarrow> None
      | Some types \<Rightarrow>
          (case severity_from_injuries (injury_detections scan) of
             None \<Rightarrow> None
           | Some sev \<Rightarrow>
               Some \<lparr>results = js_or (pose_data scan) default_results, overlay = False,
                     injuries = types, severity = sev\<rparr>))"

definition getScanById_legacy :: "scan_row \<Rightarrow> legacy_fields option" where
  "getScanById_legacy scan =
     (case legacy_injuries (injury_detections scan) of
        None \<Rightarrow> None
      | Some types \<Rightarrow>
          Some \<lparr>results = js_or (pose_data scan) default_results,
                overlay = (scan_status scan = Some ''completed''),
                injuries = types,
                severity = severity_from_confidence (analysis_confidence scan)\<rparr>)"

definition createScan_legacy :: "scan_row \<Rightarrow> legacy_fields option" where
  "createScan_legacy scan =
     (case legacy_injuries (injury_detections scan) of
        None \<Rightarrow> None
      | Some types \<Rightarrow>
          Some \<lparr>results = js_or (pose_data scan) default_results,
                overlay = (scan_status scan = Some ''completed''),
                injuries = types,
                severity = severity_from_confidence (analysis_confidence scan)\<rparr>)"

section \<open>Creating a report\<close>

text \<open>
  \<open>createReport\<close>. The request body has the fields of \<open>CreateReportRequest\<close>; a field the
  client left out is \<open>None\<close>. The storage service is a state: the rows of \<open>scans\<close> and of
  \<open>health_reports\<close>. What the service fills in for an inserted row (its id, the
  timestamps and the columns the insert does not set) is an input; \<open>None\<close> there means
  that the insert returned an error. The other columns come back as they were sent.
\<close>

record create_report_request =
  scanId :: "string option"
  title :: "string option"
  roosterId :: "string option"
  summary :: "string option"
  detailedAnalysis :: "string option"
  recommendations :: "string option"
  overallHealthScore :: "rat option"
  mobilityScore :: "rat option"
  postureScore :: "rat option"
  reportType :: "string option"

record report_row =
  report_id :: string
  report_scan_id :: string
  report_rooster_id :: string
  report_user_id :: string
  report_title :: string
  report_summary :: "string option"
  detailed_analysis :: "string option"
  report_recommendations :: "string option"
  overall_health_score :: "rat option"
  mobility_score :: "rat option"
  posture_score :: "rat option"
  total_injuries_detected :: nat
  high_priority_injuries :: nat
  report_type :: string
  report_status :: string
  created_at :: string
  updated_at :: string
  pdf_url :: jsval
  images :: jsval

record database =
  scans :: "scan_row list"
  health_reports :: "report_row list"

record generated =
  new_id :: string
  new_created_at :: string
  new_updated_at :: string
  new_pdf_url :: jsval
  new_images :: jsval

record report_outcome =
  reply :: response
  stored :: database

text \<open>\<open>String.prototype.trim\<close> on 8-bit characters: tab, line feed, vertical tab, form feed,
  carriage return, space and no-break space are white space.\<close>

definition js_space :: "char \<Rightarrow> bool" where
  "js_space c = (char_code c \<in> {9, 10, 11, 12, 13, 32, 160})"

definition trim :: "string \<Rightarrow> string" where
  "trim s = rev (dropWhile js_space (rev (dropWhile js_space s)))"

text \<open>\<open>x?.trim() || null\<close>, \<open>x || null\<close> for a number, \<open>x || 'automated'\<close>.\<close>

definition trimmed_or_null :: "string option \<Rightarrow> string option" where
  "trimmed_or_null x =
     (case x of None \<Rightarrow> None | Some s \<Rightarrow> if trim s = [] then None else Some (trim s))"

definition number_or_null :: "rat option \<Rightarrow> rat option" where
  "number_or_null x = (case x of None \<Rightarrow> None | Some n \<Rightarrow> if n = 0 then None else Some n)"

definition string_or :: "string option \<Rightarrow> string \<Rightarrow> string" where
  "string_or x d = (case x of None \<Rightarrow> d | Some s \<Rightarrow> if s = [] then d else s)"

text \<open>
  \<open>.from('scans').select(...).eq('id', scanId).eq('user_id', userId).single()\<close>: the row
  when exactly one row passes both filters, an error otherwise.
\<close>

definition select_scan :: "database \<Rightarrow> string \<Rightarrow> string \<Rightarrow> scan_row option" where
  "select_scan db sid uid =
     (case filter (\<lambda>s. scan_id s = sid \<and> scan_user_id s = uid) (scans db) of
        [s] \<Rightarrow> Some s
      | _ \<Rightarrow> None)"

text \<open>
  The two counts. \<open>filter\<close> calls its callback on every element, so one \<open>null\<close> element
  throws (\<open>None\<close>).
\<close>

definition injury_counts :: "jsval \<Rightarrow> (nat \<times> nat) option" where
  "injury_counts det =
     (case js_or det (JArr []) of
        JArr xs \<Rightarrow>
          if list_ex is_nullish xs then None
          else Some (length xs,
                     length (filter (\<lambda>e. get_prop e ''severity'' = JStr ''severe'') xs))
      | _ \<Rightarrow> Some (0, 0))"

definition api_error :: "string \<Rightarrow> jsval" where
  "api_error msg = JObj [(''error'', JStr msg), (''success'', JBool False)]"

definition opt_str :: "string option \<Rightarrow> jsval" where
  "opt_str x = (case x of None \<Rightarrow> JNull | Some s \<Rightarrow> JStr s)"

definition opt_num :: "rat option \<Rightarrow> jsval" where
  "opt_num x = (case x of None \<Rightarrow> JNull | Some n \<Rightarrow> JNum n)"

text \<open>The inserted row as the response reports it.\<close>

definition mappedReport :: "report_row \<Rightarrow> jsval" where
  "mappedReport r =
     JObj [(''id'', JStr (report_id r)),
           (''scanId'', JStr (report_scan_id r)),
           (''roosterId'', JStr (report_rooster_id r)),
           (''userId'', JStr (report_user_id r)),
           (''title'', JStr (report_title r)),
           (''summary'', opt_str (report_summary r)),
           (''detailedAnalysis'', opt_str (detailed_analysis r)),
           (''recommendations'', opt_str (report_recommendations r)),
           (''overallHealthScore'', opt_num (overall_health_score r)),
           (''mobilityScore'', opt_num (mobility_score r)),
           (''postureScore'', opt_num (posture_score r)),
           (''totalInjuriesDetected'', JNum (of_nat (total_injuries_detected r))),
           (''highPriorityInjuries'', JNum (of_nat (high_priority_injuries r))),
           (''reportType'', JStr (report_type r)),
           (''status'', JStr (report_status r)),
           (''pdfUrl'', pdf_url r),
           (''images'', images r),
           (''createdAt'', JStr (created_at r)),
           (''updatedAt'', JStr (updated_at r))]"

definition reportData ::
  "create_report_request \<Rightarrow> string \<Rightarrow> string \<Rightarrow> string \<Rightarrow> string \<Rightarrow> nat \<times> nat \<Rightarrow> generated
     \<Rightarrow> report_row" where
  "reportData b sid rid uid t counts g =
     \<lparr>report_id = new_id g,
      report_scan_id = sid,
      report_rooster_id = rid,
      report_user_id = uid,
      report_title = trim t,
      report_summary = trimmed_or_null (summary b),
      detailed_analysis = trimmed_or_null (detailedAnalysis b),
      report_recommendations = trimmed_or_null (recommendations b),
      overall_health_score = number_or_null (overallHealthScore b),
      mobility_score = number_or_null (mobilityScore b),
      posture_score = number_or_null (postureScore b),
      total_injuries_detected = fst counts,
      high_priority_injuries = snd counts,
      report_type = string_or (reportType b) ''automated'',
      report_status = ''draft'',
      created_at = new_created_at g,
      updated_at = new_updated_at g,
      pdf_url = new_pdf_url g,
      images = new_images g\<rparr>"

definition failed :: "nat \<Rightarrow> string \<Rightarrow> database \<Rightarrow> report_outcome" where
  "failed s msg db = \<lparr>reply = res_status_json s (api_error msg), stored = db\<rparr>"

definition createReport ::
  "database \<Rightarrow> generated option \<Rightarrow> string option \<Rightarrow> create_report_request \<Rightarrow> report_outcome" where
  "createReport db gen authorization b =
     (let userId = getUserIdFromAuth authorization
      in case (scanId b, roosterId b, title b) of
           (Some sid, Some rid, Some t) \<Rightarrow>
             if sid = [] \<or> rid = [] \<or> trim t = [] then
               failed 400 ''scanId, roosterId, and title are required'' db
             else
               (case select_scan db sid userId of
                  None \<Rightarrow> failed 404 ''Scan not found or access denied'' db
                | Some scan \<Rightarrow>
                    (case injury_counts (injury_detections scan) of
                       None \<Rightarrow> failed 500 ''Failed to create report'' db
                     | Some counts \<Rightarrow>
                         (case gen of
                            None \<Rightarrow> failed 500 ''Failed to create report'' db
                          | Some g \<Rightarrow>
                              let report = reportData b sid rid userId t counts g
                              in \<lparr>reply = res_status_json 201
                                            (JObj [(''data'', mappedReport report),
                                                   (''success'', JBool True)]),
                                  stored = db\<lparr>health_reports := health_reports db @ [report]\<rparr>\<rparr>)))
         | _ \<Rightarrow> failed 400 ''scanId, roosterId, and title are required'' db)"

text \<open>The required-field check passes.\<close>

definition valid_request :: "create_report_request \<Rightarrow> bool" where
  "valid_request b =
     (\<exists>sid rid t. scanId b = Some sid \<and> sid \<noteq> [] \<and> roosterId b = Some rid \<and> rid \<noteq> []
        \<and> title b = Some t \<and> trim t \<noteq> [])"

section \<open>The report route\<close>

text \<open>
  \<open>app.post("/api/reports", requireAuth, createReport)\<close>: the middleware answers 401 or
  hands the request on. \<open>jwt.verify\<close> belongs to a library and is a parameter: \<open>None\<close> when
  it throws, the decoded payload otherwise. Reading \<open>decoded.sub\<close> inside the \<open>try\<close> throws
  for a payload that is \<open>null\<close>, which the \<open>catch\<close> answers like a bad token.
\<close>

record report_request =
  authorization :: "string option"
  req_body :: jsval


text \<open>
  \<open>req.body\<close> is whatever JSON the client sent: the cast to \<open>CreateReportRequest\<close> checks
  nothing. \<open>createReport_body\<close> is the handler on such a body.

  \<open>x?.trim()\<close> is \<open>undefined\<close> for a missing or \<open>null\<close> field and the trimmed text for a
  string; a value of any other type has no function \<open>trim\<close>, and the call throws a
  \<open>TypeError\<close>, which the handler's \<open>catch\<close> answers with 500.
\<close>

datatype trimmed = Throws | Absent | Text string

definition optional_trim :: "jsval \<Rightarrow> trimmed" where
  "optional_trim v =
     (case v of
        JUndefined \<Rightarrow> Absent
      | JNull \<Rightarrow> Absent
      | JStr s \<Rightarrow> Text (trim s)
      | _ \<Rightarrow> Throws)"

text \<open>\<open>x?.trim() || null\<close>, once the call has not thrown.\<close>

definition text_or_null :: "trimmed \<Rightarrow> string option" where
  "text_or_null t = (case t of Text s \<Rightarrow> (if s = [] then None else Some s) | _ \<Rightarrow> None)"

text \<open>
  The object handed to \<open>insert\<close>. Fields of the body that the handler passes on unchecked
  stay JavaScript values.
\<close>

record report_data =
  data_scan_id :: jsval
  data_rooster_id :: jsval
  data_user_id :: string
  data_title :: string
  data_summary :: "string option"
  data_detailed_analysis :: "string option"
  data_recommendations :: "string option"
  data_overall_health_score :: jsval
  data_mobility_score :: jsval
  data_posture_score :: jsval
  data_total_injuries_detected :: nat
  data_high_priority_injuries :: nat
  data_report_type :: jsval
  data_status :: string

text \<open>
  The value of an \<open>eq\<close> filter goes into the query as text. A string goes as it is; how the
  client library writes a value of another type is the parameter \<open>render\<close>.
\<close>

definition eq_value :: "(jsval \<Rightarrow> string) \<Rightarrow> jsval \<Rightarrow> string" where
  "eq_value render v = (case v of JStr s \<Rightarrow> s | _ \<Rightarrow> render v)"

text \<open>
  The storage service's answer to the insert is the parameter \<open>insert_row\<close>: \<open>None\<close> for an
  error, the stored row otherwise.
\<close>

definition createReport_body ::
  "(jsval \<Rightarrow> string) \<Rightarrow> (report_data \<Rightarrow> report_row option) \<Rightarrow> database \<Rightarrow> string option
     \<Rightarrow> jsval \<Rightarrow> report_outcome" where
  "createReport_body render insert_row db authHeader b =
     (let userId = getUserIdFromAuth authHeader
      in if is_nullish b then failed 500 ''Failed to create report'' db
         else if \<not> truthy (get_prop b ''scanId'') \<or> \<not> truthy (get_prop b ''roosterId'')
         then failed 400 ''scanId, roosterId, and title are required'' db
         else
           (case optional_trim (get_prop b ''title'') of
              Throws \<Rightarrow> failed 500 ''Failed to create report'' db
            | Absent \<Rightarrow> failed 400 ''scanId, roosterId, and title are required'' db
            | Text t \<Rightarrow>
                if t = [] then failed 400 ''scanId, roosterId, and title are required'' db
                else
                  (case select_scan db (eq_value render (get_prop b ''scanId'')) userId of
                     None \<Rightarrow> failed 404 ''Scan not found or access denied'' db
                   | Some scan \<Rightarrow>
                       (case injury_counts (injury_detections scan) of
                          None \<Rightarrow> failed 500 ''Failed to create report'' db
                        | Some counts \<Rightarrow>
                            let s = optional_trim (get_prop b ''summary'');
                                a = optional_trim (get_prop b ''detailedAnalysis'');
                                r = optional_trim (get_prop b ''recommendations'')
                            in if s = Throws \<or> a = Throws \<or> r = Throws
                               then failed 500 ''Failed to create report'' db
                               else
                                 (case insert_row
                                     \<lparr>data_scan_id = get_prop b ''scanId'',
                                      data_rooster_id = get_prop b ''roosterId'',
                                      data_user_id = userId,
                                      data_title = t,
                                      data_summary = text_or_null s,
                                      data_detailed_analysis = text_or_null a,
                                      data_recommendations = text_or_null r,
                                      data_overall_health_score =
                                        js_or (get_prop b ''overallHealthScore'') JNull,
                                      data_mobility_score =
                                        js_or (get_prop b ''mobilityScore'') JNull,
                                      data_posture_score =
                                        js_or (get_prop b ''postureScore'') JNull,
                                      data_total_injuries_detected = fst counts,
                                      data_high_priority_injuries = snd counts,
                                      data_report_type =
                                        js_or (get_prop b ''reportType'') (JStr ''automated''),
                                      data_status = ''draft''\<rparr> of
                                    None \<Rightarrow> failed 500 ''Failed to create report'' db
                                  | Some report \<Rightarrow>
                                      \<lparr>reply = res_status_json 201
                                           (JObj [(''data'', mappedReport report),
                                                  (''success'', JBool True)]),
                                       stored = db\<lparr>health_reports :=
                                                  health_reports db @ [report]\<rparr>\<rparr>)))))"




text \<open>
  \<open>createReport\<close> above is this handler on the bodies a typed client sends:
  \<open>encode_request\<close> is the body of a \<open>CreateReportRequest\<close> (a field left out reads as
  \<open>undefined\<close>), and \<open>stored_as_sent\<close> is a storage service that stores a row whose values
  have their column's type as it was sent.
\<close>

definition str_field :: "string option \<Rightarrow> jsval" where
  "str_field x = (case x of None \<Rightarrow> JUndefined | Some s \<Rightarrow> JStr s)"

definition num_field :: "rat option \<Rightarrow> jsval" where
  "num_field x = (case x of None \<Rightarrow> JUndefined | Some n \<Rightarrow> JNum n)"

definition encode_request :: "create_report_request \<Rightarrow> jsval" where
  "encode_request b =
     JObj [(''scanId'', str_field (scanId b)),
           (''title'', str_field (title b)),
           (''roosterId'', str_field (roosterId b)),
           (''summary'', str_field (summary b)),
           (''detailedAnalysis'', str_field (detailedAnalysis b)),
           (''recommendations'', str_field (recommendations b)),
           (''overallHealthScore'', num_field (overallHealthScore b)),
           (''mobilityScore'', num_field (mobilityScore b)),
           (''postureScore'', num_field (postureScore b)),
           (''reportType'', str_field (reportType b))]"

definition score_column :: "jsval \<Rightarrow> rat option option" where
  "score_column v = (case v of JNum n \<Rightarrow> Some (Some n) | JNull \<Rightarrow> Some None | _ \<Rightarrow> None)"

definition stored_as_sent :: "generated option \<Rightarrow> report_data \<Rightarrow> report_row option" where
  "stored_as_sent gen d =
     (case gen of
        None \<Rightarrow> None
      | Some g \<Rightarrow>
          (case (data_scan_id d, data_rooster_id d, data_report_type d) of
             (JStr sid, JStr rid, JStr ty) \<Rightarrow>
               (case (score_column (data_overall_health_score d),
                      score_column (data_mobility_score d),
                      score_column (data_posture_score d)) of
                  (Some o_score, Some m_score, Some p_score) \<Rightarrow>
                    Some \<lparr>report_id = new_id g,
                          report_scan_id = sid,
                          report_rooster_id = rid,
                          report_user_id = data_user_id d,
                          report_title = data_title d,
                          report_summary = data_summary d,
                          detailed_analysis = data_detailed_analysis d,
                          report_recommendations = data_recommendations d,
                          overall_health_score = o_score,
                          mobility_score = m_score,
                          posture_score = p_score,
                          total_injuries_detected = data_total_injuries_detected d,
                          high_priority_injuries = data_high_priority_injuries d,
                          report_type = ty,
                          report_status = data_status d,
                          created_at = new_created_at g,
                          updated_at = new_updated_at g,
                          pdf_url = new_pdf_url g,
                          images = new_images g\<rparr>
                | _ \<Rightarrow> None)
           | _ \<Rightarrow> None))"

section \<open>Concrete inputs\<close>

text \<open>A deployment, a request and file systems used to run the handlers on.\<close>

definition example_deployment :: deployment where
  "example_deployment =
     \<lparr>modelPath = ''/app/rooster_pose_model.pt'',
      bumblefootModelPath = ''/app/rooster_bumblefoot_model.pt'',
      sequentialScriptPath = ''/app/server/scripts/sequential_analysis.py''\<rparr>"

definition example_request :: request where
  "example_request = \<lparr>req_file = Some \<lparr>path = ''uploads/image-1.jpg''\<rparr>\<rparr>"

definition all_deployed :: "string set" where
  "all_deployed =
     {''/app/rooster_pose_model.pt'', ''/app/rooster_bumblefoot_model.pt'',
      ''/app/server/scripts/sequential_analysis.py'', ''uploads/image-1.jpg''}"

definition pose_model_only :: "string set" where
  "pose_model_only =
     {''/app/rooster_pose_model.pt'', ''/app/server/scripts/sequential_analysis.py'',
      ''uploads/image-1.jpg''}"

definition never_exits :: "string list \<Rightarrow> proc_result option" where
  "never_exits args = None"

definition exits_with :: "int option \<Rightarrow> string \<Rightarrow> string \<Rightarrow> string list \<Rightarrow> proc_result option" where
  "exits_with c out err args = Some \<lparr>exit_code = c, stdout = out, stderr = err\<rparr>"



definition exited :: "int \<Rightarrow> string \<Rightarrow> string \<Rightarrow> proc_result" where
  "exited c out err = \<lparr>exit_code = Some c, stdout = out, stderr = err\<rparr>"

definition noisy_output :: string where
  \<open>noisy_output = ''cfg={x} {"success":true}''\<close>

definition severe_scan :: scan_row where
  "severe_scan =
     \<lparr>scan_id = ''scan-1'', scan_user_id = ''00000000-0000-0000-0000-000000000001'',
      scan_status = Some ''completed'', pose_data = JNull,
      injury_detections =
        JArr [JObj [(''type'', JStr ''wing_injury''), (''severity'', JStr ''severe'')]],
      analysis_confidence = Some (3 / 10)\<rparr>"

definition empty_request :: create_report_request where
  "empty_request =
     \<lparr>scanId = None, title = None, roosterId = None, summary = None, detailedAnalysis = None,
      recommendations = None, overallHealthScore = None, mobilityScore = None,
      postureScore = None, reportType = None\<rparr>"

definition foreign_scan :: scan_row where
  "foreign_scan =
     \<lparr>scan_id = ''scan-9'', scan_user_id = ''7b0c6f4e-0000-4000-8000-00000000beef'',
      scan_status = Some ''completed'', pose_data = JNull,
      injury_detections = JArr [JObj [(''type'', JStr ''limp''), (''severity'', JStr ''severe'')]],
      analysis_confidence = Some (9 / 10)\<rparr>"

definition own_scan :: scan_row where
  "own_scan =
     \<lparr>scan_id = ''scan-1'', scan_user_id = ''00000000-0000-0000-0000-000000000001'',
      scan_status = Some ''completed'', pose_data = JNull,
      injury_detections =
        JArr [JObj [(''type'', JStr ''wing_injury''), (''severity'', JStr ''severe'')],
              JObj [(''type'', JStr ''limp''), (''severity'', JStr ''mild'')],
              JObj [(''type'', JStr ''classification_result'')]],
      analysis_confidence = Some (9 / 10)\<rparr>"

definition example_database :: database where
  "example_database = \<lparr>scans = [own_scan, foreign_scan], health_reports = []\<rparr>"

definition example_generated :: generated where
  "example_generated =
     \<lparr>new_id = ''report-1'', new_created_at = ''2025-01-01T00:00:00Z'',
      new_updated_at = ''2025-01-01T00:00:00Z'', new_pdf_url = JNull, new_images = JNull\<rparr>"

definition weekly_request :: create_report_request where
  "weekly_request =
     empty_request\<lparr>scanId := Some ''scan-1'', roosterId := Some ''rooster-1'',
                    title := Some ''Weekly report''\<rparr>"

definition clean_scan :: scan_row where
  "clean_scan =
     \<lparr>scan_id = ''scan-3'', scan_user_id = ''00000000-0000-0000-0000-000000000001'',
      scan_status = Some ''completed'', pose_data = JNull,
      injury_detections = JArr [],
      analysis_confidence = Some (95 / 100)\<rparr>"




definition bearer :: "string option" where
  "bearer = Some ''Bearer header.payload.signature''"



section \<open>Facts about the match and the handler's branches\<close>

text \<open>
  The match of the regular expression, in terms of the output's shape: there is none when
  the output has no opening brace or no closing brace after the first opening one;
  otherwise it runs from the first opening brace to the last closing one.
\<close>

lemma dropWhile_neq_append:
  "x \<notin> set pre \<Longrightarrow> dropWhile (\<lambda>c. c \<noteq> x) (pre @ x # ys) = x # ys"
  by (induction pre) auto

lemma dropWhile_neq_Nil: "x \<notin> set xs \<Longrightarrow> dropWhile (\<lambda>c. c \<noteq> x) xs = []"
  by (induction xs) auto

lemma jsonMatch_no_open: "CHR ''{'' \<notin> set s \<Longrightarrow> jsonMatch s = None"
  by (simp add: jsonMatch_def dropWhile_neq_Nil)

lemma jsonMatch_no_close:
  assumes "CHR ''{'' \<notin> set pre" and "CHR ''}'' \<notin> set after"
  shows "jsonMatch (pre @ CHR ''{'' # after) = None"
proof -
  have "dropWhile (\<lambda>c. c \<noteq> CHR ''}'') (rev after) = []"
    using assms(2) by (simp add: dropWhile_neq_Nil)
  then show ?thesis
    by (simp add: jsonMatch_def dropWhile_neq_append [OF assms(1)])
qed

lemma jsonMatch_sandwich:
  assumes "CHR ''{'' \<notin> set pre" and "CHR ''}'' \<notin> set post"
  shows "jsonMatch (pre @ CHR ''{'' # mid @ CHR ''}'' # post) = Some (CHR ''{'' # mid @ ''}'')"
proof -
  have "CHR ''}'' \<notin> set (rev post)" using assms(2) by simp
  then have "dropWhile (\<lambda>c. c \<noteq> CHR ''}'') (rev post @ CHR ''}'' # rev mid) = CHR ''}'' # rev mid"
    by (rule dropWhile_neq_append)
  then show ?thesis
    by (simp add: jsonMatch_def dropWhile_neq_append [OF assms(1)])
qed

lemma jsonMatch_cases:
  obtains (no_open) "CHR ''{'' \<notin> set s" "jsonMatch s = None"
  | (no_close) pre after where "s = pre @ CHR ''{'' # after" "CHR ''{'' \<notin> set pre"
      "CHR ''}'' \<notin> set after" "jsonMatch s = None"
  | (found) pre mid post where "s = pre @ CHR ''{'' # mid @ CHR ''}'' # post"
      "CHR ''{'' \<notin> set pre" "CHR ''}'' \<notin> set post"
      "jsonMatch s = Some (CHR ''{'' # mid @ ''}'')"
proof (cases "CHR ''{'' \<in> set s")
  case False
  from no_open [OF False jsonMatch_no_open [OF False]] show ?thesis .
next
  case True
  from split_list_first [OF True] obtain pre after
    where s: "s = pre @ CHR ''{'' # after" and pre: "CHR ''{'' \<notin> set pre"
    by blast
  show ?thesis
  proof (cases "CHR ''}'' \<in> set after")
    case False
    have "jsonMatch s = None"
      unfolding s by (rule jsonMatch_no_close [OF pre False])
    from no_close [OF s pre False this] show ?thesis .
  next
    case True
    from split_list_last [OF True] obtain mid post
      where a: "after = mid @ CHR ''}'' # post" and post: "CHR ''}'' \<notin> set post"
      by blast
    have s': "s = pre @ CHR ''{'' # mid @ CHR ''}'' # post"
      unfolding s a ..
    have "jsonMatch s = Some (CHR ''{'' # mid @ ''}'')"
      unfolding s' by (rule jsonMatch_sandwich [OF pre post])
    from found [OF s' pre post this] show ?thesis .
  qed
qed

lemma first_open_brace:
  assumes "pre0 @ CHR ''{'' # after0 = pre @ CHR ''{'' # rest" and "CHR ''{'' \<notin> set pre0"
  shows "set rest \<subseteq> set after0"
proof -
  from assms(1) obtain us where
    "(pre0 = pre @ us \<and> us @ CHR ''{'' # after0 = CHR ''{'' # rest)
     \<or> (pre0 @ us = pre \<and> CHR ''{'' # after0 = us @ CHR ''{'' # rest)"
    unfolding append_eq_append_conv2 by blast
  then show ?thesis
  proof
    assume a: "pre0 = pre @ us \<and> us @ CHR ''{'' # after0 = CHR ''{'' # rest"
    show ?thesis
    proof (cases us)
      case Nil
      with a show ?thesis by simp
    next
      case (Cons u us')
      with a have "u = CHR ''{''" by simp
      with a Cons assms(2) show ?thesis by simp
    qed
  next
    assume a: "pre0 @ us = pre \<and> CHR ''{'' # after0 = us @ CHR ''{'' # rest"
    show ?thesis
    proof (cases us)
      case Nil
      with a show ?thesis by simp
    next
      case (Cons u us')
      with a have "after0 = us' @ CHR ''{'' # rest" by simp
      then show ?thesis by auto
    qed
  qed
qed

lemma jsonMatch_None_iff:
  "jsonMatch s = None \<longleftrightarrow> \<not> (\<exists>pre mid post. s = pre @ CHR ''{'' # mid @ CHR ''}'' # post)"
proof (cases s rule: jsonMatch_cases)
  case no_open
  then show ?thesis by auto
next
  case (no_close pre0 after0)
  have "\<not> (\<exists>pre mid post. s = pre @ CHR ''{'' # mid @ CHR ''}'' # post)"
  proof
    assume "\<exists>pre mid post. s = pre @ CHR ''{'' # mid @ CHR ''}'' # post"
    then obtain pre mid post where "s = pre @ CHR ''{'' # mid @ CHR ''}'' # post" by blast
    with no_close(1) have "pre0 @ CHR ''{'' # after0 = pre @ CHR ''{'' # (mid @ CHR ''}'' # post)"
      by simp
    from first_open_brace [OF this no_close(2)] no_close(3) show False by auto
  qed
  with no_close(4) show ?thesis by simp
next
  case (found pre mid post)
  then show ?thesis by auto
qed

lemma jsonMatch_Some_iff:
  "jsonMatch s = Some m \<longleftrightarrow>
     (\<exists>pre mid post. s = pre @ CHR ''{'' # mid @ CHR ''}'' # post \<and> m = CHR ''{'' # mid @ ''}''
        \<and> CHR ''{'' \<notin> set pre \<and> CHR ''}'' \<notin> set post)"
proof
  assume a: "jsonMatch s = Some m"
  show "\<exists>pre mid post. s = pre @ CHR ''{'' # mid @ CHR ''}'' # post \<and> m = CHR ''{'' # mid @ ''}''
        \<and> CHR ''{'' \<notin> set pre \<and> CHR ''}'' \<notin> set post"
  proof (cases s rule: jsonMatch_cases)
    case (found pre mid post)
    with a show ?thesis by auto
  qed (use a in auto)
next
  assume "\<exists>pre mid post. s = pre @ CHR ''{'' # mid @ CHR ''}'' # post \<and> m = CHR ''{'' # mid @ ''}''
        \<and> CHR ''{'' \<notin> set pre \<and> CHR ''}'' \<notin> set post"
  then show "jsonMatch s = Some m" using jsonMatch_sandwich by auto
qed


lemma detect_no_model:
  "req_file req = Some f \<Longrightarrow> modelPath d \<notin> fs \<Longrightarrow>
   detect parse d run fs req = respond (res_json mock_payload) fs"
  by (simp add: detect_def)

lemma detect_no_bumblefoot:
  "req_file req = Some f \<Longrightarrow> modelPath d \<in> fs \<Longrightarrow> bumblefootModelPath d \<notin> fs \<Longrightarrow>
   detect parse d run fs req =
     respond (res_status_json 500 (error_body ''Bumblefoot classification model not found'')) fs"
  by (simp add: detect_def)

lemma detect_spawned:
  assumes "req_file req = Some f" "modelPath d \<in> fs" "bumblefootModelPath d \<in> fs"
    "sequentialScriptPath d \<in> fs" "path f \<in> fs"
    "run [sequentialScriptPath d, path f, modelPath d, bumblefootModelPath d] = Some pr"
  shows "detect parse d run fs req =
     \<lparr>sent = Some (close_response parse pr), files = fs - {path f},
      spawned = [[''python'', sequentialScriptPath d, path f, modelPath d, bumblefootModelPath d]],
      unlinked = [path f]\<rparr>"
  using assms by (simp add: detect_def on_close_def unlinkSync_def Let_def)


lemma close_response_parsed:
  assumes "exit_code pr = Some 0" and "jsonMatch (stdout pr) = Some m" and "parse m = Inr kvs"
  shows "close_response parse pr =
     (if truthy (get_prop (JObj kvs) ''success'') then res_json (success_body (JObj kvs))
      else res_status_json 500 (analysis_failed_body (JObj kvs)))"
  using assms by (simp add: close_response_def)





lemma JSON_parse_success_object:
  \<open>JSON_parse ''{"success":true}'' = Inr [(''success'', JBool True)]\<close>
  unfolding JSON_parse_def by code_simp

lemma jsonMatch_noisy_output: \<open>jsonMatch noisy_output = Some ''{x} {"success":true}''\<close>
  by (simp add: jsonMatch_def noisy_output_def)

lemma JSON_parse_noisy_match:
  \<open>JSON_parse ''{x} {"success":true}'' = Inl syntax_error_message\<close>
  unfolding JSON_parse_def by code_simp

lemma no_braces_no_split:
  "CHR ''{'' \<notin> set s \<Longrightarrow> \<not> (\<exists>pre mid post. s = pre @ CHR ''{'' # mid @ CHR ''}'' # post)"
  by auto


lemma select_scan_Some:
  assumes "select_scan db sid uid = Some scan"
  shows "scan \<in> set (scans db) \<and> scan_id scan = sid \<and> scan_user_id scan = uid"
proof -
  from assms have "filter (\<lambda>s. scan_id s = sid \<and> scan_user_id s = uid) (scans db) = [scan]"
    by (auto simp: select_scan_def split: list.splits)
  then have "scan \<in> set (filter (\<lambda>s. scan_id s = sid \<and> scan_user_id s = uid) (scans db))"
    by simp
  then show ?thesis by simp
qed

lemma createReport_invalid:
  assumes "\<not> valid_request b"
  shows "createReport db gen h b = failed 400 ''scanId, roosterId, and title are required'' db"
  using assms
  by (cases "scanId b"; cases "roosterId b"; cases "title b")
     (auto simp: createReport_def valid_request_def Let_def)

lemma createReport_valid:
  assumes "scanId b = Some sid" "sid \<noteq> []" "roosterId b = Some rid" "rid \<noteq> []"
    "title b = Some t" "trim t \<noteq> []"
  shows "createReport db gen h b =
     (case select_scan db sid (getUserIdFromAuth h) of
        None \<Rightarrow> failed 404 ''Scan not found or access denied'' db
      | Some scan \<Rightarrow>
          (case injury_counts (injury_detections scan) of
             None \<Rightarrow> failed 500 ''Failed to create report'' db
           | Some counts \<Rightarrow>
               (case gen of
                  None \<Rightarrow> failed 500 ''Failed to create report'' db
                | Some g \<Rightarrow>
                    \<lparr>reply = res_status_json 201
                       (JObj [(''data'', mappedReport (reportData b sid rid (getUserIdFromAuth h) t counts g)),
                              (''success'', JBool True)]),
                     stored = db\<lparr>health_reports := health_reports db
                        @ [reportData b sid rid (getUserIdFromAuth h) t counts g]\<rparr>\<rparr>)))"
  using assms by (simp add: createReport_def Let_def split: option.splits)

lemma getUserIdFromAuth_None: "getUserIdFromAuth None = ''00000000-0000-0000-0000-000000000001''"
  by (simp add: getUserIdFromAuth_def placeholder_uuid_def)

lemma trim_Weekly: "trim ''Weekly report'' = ''Weekly report''"
  by (simp add: trim_def js_space_def char_code_def)

lemma injury_counts_Some:
  assumes "injury_counts det = Some counts"
  shows "fst counts = (case det of JArr xs \<Rightarrow> length xs | _ \<Rightarrow> 0)
     \<and> snd counts = (case det of
           JArr xs \<Rightarrow> length (filter (\<lambda>e. get_prop e ''severity'' = JStr ''severe'') xs)
         | _ \<Rightarrow> 0)"
  using assms
  by (cases det) (auto simp: injury_counts_def js_or_def split: if_splits)

lemma createReport_keeps_rows:
  "scans (stored (createReport db gen h b)) = scans db
   \<and> prefix (health_reports db) (health_reports (stored (createReport db gen h b)))"
proof (cases "valid_request b")
  case False
  then show ?thesis by (simp add: createReport_invalid failed_def)
next
  case True
  then obtain sid rid t where v: "scanId b = Some sid" "sid \<noteq> []" "roosterId b = Some rid"
    "rid \<noteq> []" "title b = Some t" "trim t \<noteq> []"
    by (auto simp: valid_request_def)
  show ?thesis
    unfolding createReport_valid [OF v]
    by (simp add: failed_def split: option.splits)
qed

lemma createReport_created:
  assumes "status (reply (createReport db gen h b)) = 201"
  obtains sid rid t scan counts g where
    "scanId b = Some sid" "roosterId b = Some rid" "title b = Some t"
    "select_scan db sid (getUserIdFromAuth h) = Some scan"
    "injury_counts (injury_detections scan) = Some counts"
    "gen = Some g"
    "createReport db gen h b =
       \<lparr>reply = res_status_json 201
          (JObj [(''data'', mappedReport (reportData b sid rid (getUserIdFromAuth h) t counts g)),
                 (''success'', JBool True)]),
        stored = db\<lparr>health_reports := health_reports db
           @ [reportData b sid rid (getUserIdFromAuth h) t counts g]\<rparr>\<rparr>"
proof (cases "valid_request b")
  case False
  with assms show ?thesis
    by (simp add: createReport_invalid failed_def res_status_json_def)
next
  case True
  then obtain sid rid t where v: "scanId b = Some sid" "sid \<noteq> []" "roosterId b = Some rid"
    "rid \<noteq> []" "title b = Some t" "trim t \<noteq> []"
    by (auto simp: valid_request_def)
  note eq = createReport_valid [OF v]
  from assms obtain scan where sc: "select_scan db sid (getUserIdFromAuth h) = Some scan"
    by (cases "select_scan db sid (getUserIdFromAuth h)")
      (auto simp: eq failed_def res_status_json_def)
  from assms obtain counts where c: "injury_counts (injury_detections scan) = Some counts"
    by (cases "injury_counts (injury_detections scan)")
      (auto simp: eq sc failed_def res_status_json_def)
  from assms obtain g where g: "gen = Some g"
    by (cases gen) (auto simp: eq sc c failed_def res_status_json_def)
  show ?thesis
    by (rule that [OF v(1,3,5) sc c g]) (simp add: eq sc c g)
qed

lemma select_own_scan:
  "select_scan example_database ''scan-1'' (getUserIdFromAuth None) = Some own_scan"
  by (simp add: select_scan_def example_database_def own_scan_def foreign_scan_def
      getUserIdFromAuth_None)

lemma injury_counts_own_scan: "injury_counts (injury_detections own_scan) = Some (3, 1)"
  by (simp add: injury_counts_def own_scan_def js_or_def is_nullish_def)

lemma createReport_weekly_status:
  "status (reply (createReport example_database (Some example_generated) None weekly_request)) = 201"
proof -
  have "createReport example_database (Some example_generated) None weekly_request =
     (case select_scan example_database ''scan-1'' (getUserIdFromAuth None) of
        None \<Rightarrow> failed 404 ''Scan not found or access denied'' example_database
      | Some scan \<Rightarrow>
          (case injury_counts (injury_detections scan) of
             None \<Rightarrow> failed 500 ''Failed to create report'' example_database
           | Some counts \<Rightarrow>
               (case Some example_generated of
                  None \<Rightarrow> failed 500 ''Failed to create report'' example_database
                | Some g \<Rightarrow>
                    \<lparr>reply = res_status_json 201
                       (JObj [(''data'', mappedReport (reportData weekly_request ''scan-1'' ''rooster-1''
                                 (getUserIdFromAuth None) ''Weekly report'' counts g)),
                              (''success'', JBool True)]),
                     stored = example_database\<lparr>health_reports := health_reports example_database
                        @ [reportData weekly_request ''scan-1'' ''rooster-1''
                             (getUserIdFromAuth None) ''Weekly report'' counts g]\<rparr>\<rparr>)))"
    by (rule createReport_valid) (simp_all add: weekly_request_def empty_request_def trim_Weekly)
  then show ?thesis
    by (simp add: select_own_scan injury_counts_own_scan res_status_json_def)
qed

text \<open>
  Where the leading text has no opening brace and the trailing text no closing one, the
  match is the object and the answer is built from it. The match is the object in no
  other case.
\<close>

lemma close_response_braceless:
  assumes "CHR ''{'' \<notin> set pre" and "CHR ''}'' \<notin> set post"
    and "parse (CHR ''{'' # mid @ ''}'') = Inr kvs"
    and "exit_code pr = Some 0"
    and "stdout pr = pre @ (CHR ''{'' # mid @ ''}'') @ post"
  shows "jsonMatch (stdout pr) = Some (CHR ''{'' # mid @ ''}'')
     \<and> close_response parse pr =
         (if truthy (get_prop (JObj kvs) ''success'') then res_json (success_body (JObj kvs))
          else res_status_json 500 (analysis_failed_body (JObj kvs)))"
proof -
  have m: "jsonMatch (stdout pr) = Some (CHR ''{'' # mid @ ''}'')"
    using jsonMatch_sandwich [OF assms(1,2), of mid] assms(5) by simp
  from close_response_parsed [of pr "CHR ''{'' # mid @ ''}''" parse kvs] assms(3,4) m
  show ?thesis by simp
qed

lemma jsonMatch_object_only_if:
  assumes "jsonMatch (pre @ (CHR ''{'' # mid @ ''}'') @ post) = Some (CHR ''{'' # mid @ ''}'')"
  shows "CHR ''{'' \<notin> set pre \<and> CHR ''}'' \<notin> set post"
proof -
  let ?obj = "CHR ''{'' # mid @ ''}''"
  let ?s = "pre @ ?obj @ post"
  from assms obtain pre' mid' post' where
    s: "?s = pre' @ CHR ''{'' # mid' @ CHR ''}'' # post'"
    and m: "?obj = CHR ''{'' # mid' @ ''}''"
    and pre': "CHR ''{'' \<notin> set pre'" and post': "CHR ''}'' \<notin> set post'"
    unfolding jsonMatch_Some_iff by blast
  from m have "mid' = mid" by simp
  with s have e: "?s = pre' @ ?obj @ post'" by simp
  have len: "length pre + length post = length pre' + length post'"
  proof -
    from e have "length ?s = length (pre' @ ?obj @ post')" by simp
    then show ?thesis by simp
  qed
  have a: "length pre' \<le> length pre"
  proof (rule ccontr)
    assume "\<not> length pre' \<le> length pre"
    then have lt: "length pre < length pre'" by simp
    have "?s ! length pre = CHR ''{''" by (simp add: nth_append)
    moreover have "?s ! length pre = pre' ! length pre"
      using lt by (subst e) (simp add: nth_append)
    ultimately have "CHR ''{'' \<in> set pre'"
      using lt nth_mem [of "length pre" pre'] by simp
    with pre' show False by simp
  qed
  have b: "length post' \<le> length post"
  proof (rule ccontr)
    assume "\<not> length post' \<le> length post"
    then have lt: "length post < length post'" by simp
    have r: "rev ?s = rev post @ CHR ''}'' # rev mid @ CHR ''{'' # rev pre" by simp
    have r': "rev ?s = rev post' @ CHR ''}'' # rev mid @ CHR ''{'' # rev pre'"
      by (subst e) simp
    have "rev ?s ! length post = CHR ''}''"
      unfolding r by (simp add: nth_append)
    moreover have "rev ?s ! length post = rev post' ! length post"
      unfolding r' using lt by (simp add: nth_append)
    ultimately have "CHR ''}'' \<in> set (rev post')"
      using lt nth_mem [of "length post" "rev post'"] by simp
    with post' show False by simp
  qed
  from a b len have "length pre' = length pre" by linarith
  with e have "pre' = pre \<and> ?obj @ post' = ?obj @ post"
    by (metis append_eq_append_conv)
  with pre' post' show ?thesis by simp
qed

lemma jsonMatch_object_iff:
  "jsonMatch (pre @ (CHR ''{'' # mid @ ''}'') @ post) = Some (CHR ''{'' # mid @ ''}'')
     \<longleftrightarrow> CHR ''{'' \<notin> set pre \<and> CHR ''}'' \<notin> set post"
  using jsonMatch_object_only_if [of pre mid post] jsonMatch_sandwich [of pre post mid]
  by auto

lemma injury_types_total: "\<not> list_ex is_nullish xs \<Longrightarrow> \<exists>ts. injury_types xs = Some ts"
  by (induction xs) auto

lemma some_severe_True:
  "\<not> list_ex is_nullish xs \<Longrightarrow> \<exists>e\<in>set xs. get_prop e ''severity'' = JStr ''severe''
     \<Longrightarrow> some_severe xs = Some True"
  by (induction xs) auto








lemma getUserIdFromAuth_bearer:
  "getUserIdFromAuth bearer = ''00000000-0000-0000-0000-000000000001''"
  by (simp add: getUserIdFromAuth_def placeholder_uuid_def Let_def split: option.split)

lemma scan_9_not_owned:
  "\<not> (\<exists>s\<in>set (scans example_database).
         scan_id s = ''scan-9'' \<and> scan_user_id s = getUserIdFromAuth bearer)"
  by (simp add: example_database_def own_scan_def foreign_scan_def getUserIdFromAuth_bearer)




text \<open>The typed handler is the handler on typed bodies.\<close>

lemma get_prop_encode_request:
  "get_prop (encode_request b) ''scanId'' = str_field (scanId b)"
  "get_prop (encode_request b) ''title'' = str_field (title b)"
  "get_prop (encode_request b) ''roosterId'' = str_field (roosterId b)"
  "get_prop (encode_request b) ''summary'' = str_field (summary b)"
  "get_prop (encode_request b) ''detailedAnalysis'' = str_field (detailedAnalysis b)"
  "get_prop (encode_request b) ''recommendations'' = str_field (recommendations b)"
  "get_prop (encode_request b) ''overallHealthScore'' = num_field (overallHealthScore b)"
  "get_prop (encode_request b) ''mobilityScore'' = num_field (mobilityScore b)"
  "get_prop (encode_request b) ''postureScore'' = num_field (postureScore b)"
  "get_prop (encode_request b) ''reportType'' = str_field (reportType b)"
  by (simp_all add: encode_request_def)

lemma truthy_str_field: "truthy (str_field x) \<longleftrightarrow> (\<exists>s. x = Some s \<and> s \<noteq> [])"
  by (cases x) (simp_all add: str_field_def)

lemma optional_trim_str_field:
  "optional_trim (str_field x) = (case x of None \<Rightarrow> Absent | Some s \<Rightarrow> Text (trim s))"
  by (cases x) (simp_all add: str_field_def optional_trim_def)

lemma text_or_null_str_field:
  "text_or_null (optional_trim (str_field x)) = trimmed_or_null x"
  by (cases x) (simp_all add: str_field_def optional_trim_def text_or_null_def trimmed_or_null_def)

lemma optional_trim_str_field_Throws: "optional_trim (str_field x) \<noteq> Throws"
  by (cases x) (simp_all add: str_field_def optional_trim_def)

lemma score_column_num_field:
  "score_column (js_or (num_field x) JNull) = Some (number_or_null x)"
  by (cases x) (simp_all add: num_field_def score_column_def js_or_def number_or_null_def)

lemma report_type_str_field:
  "js_or (str_field x) (JStr ''automated'') = JStr (string_or x ''automated'')"
  by (cases x) (simp_all add: str_field_def js_or_def string_or_def)

lemma optional_trim_str_field_Some: "optional_trim (str_field (Some s)) = Text (trim s)"
  by (simp add: str_field_def optional_trim_def)

lemma str_field_Some: "str_field (Some s) = JStr s"
  by (simp add: str_field_def)

lemma encode_request_not_nullish: "\<not> is_nullish (encode_request b)"
  by (simp add: encode_request_def is_nullish_def)

lemma createReport_body_typed:
  "createReport_body render (stored_as_sent gen) db h (encode_request b) = createReport db gen h b"
proof (cases "valid_request b")
  case False
  then have "createReport_body render (stored_as_sent gen) db h (encode_request b)
      = failed 400 ''scanId, roosterId, and title are required'' db"
    by (cases "scanId b"; cases "roosterId b"; cases "title b")
       (auto simp: createReport_body_def valid_request_def Let_def get_prop_encode_request
          encode_request_not_nullish truthy_str_field optional_trim_str_field)
  with False show ?thesis by (simp add: createReport_invalid)
next
  case True
  then obtain sid rid t where v: "scanId b = Some sid" "sid \<noteq> []" "roosterId b = Some rid"
    "rid \<noteq> []" "title b = Some t" "trim t \<noteq> []"
    by (auto simp: valid_request_def)
  have e: "eq_value render (str_field (Some sid)) = sid"
    by (simp add: eq_value_def str_field_def)
  note simps = createReport_body_def Let_def get_prop_encode_request
    encode_request_not_nullish truthy_str_field optional_trim_str_field_Some e
    optional_trim_str_field_Throws text_or_null_str_field
  note eq = createReport_valid [OF v]
  show ?thesis
  proof (cases "select_scan db sid (getUserIdFromAuth h)")
    case None
    with v show ?thesis by (simp add: eq simps)
  next
    case (Some scan)
    show ?thesis
    proof (cases "injury_counts (injury_detections scan)")
      case None
      with v Some show ?thesis by (simp add: eq simps)
    next
      case counts: (Some counts)
      show ?thesis
      proof (cases gen)
        case None
        with v Some counts show ?thesis by (simp add: eq simps stored_as_sent_def)
      next
        case g: (Some g)
        have "stored_as_sent (Some g)
           \<lparr>data_scan_id = str_field (Some sid),
            data_rooster_id = str_field (Some rid),
            data_user_id = getUserIdFromAuth h,
            data_title = trim t,
            data_summary = trimmed_or_null (summary b),
            data_detailed_analysis = trimmed_or_null (detailedAnalysis b),
            data_recommendations = trimmed_or_null (recommendations b),
            data_overall_health_score = js_or (num_field (overallHealthScore b)) JNull,
            data_mobility_score = js_or (num_field (mobilityScore b)) JNull,
            data_posture_score = js_or (num_field (postureScore b)) JNull,
            data_total_injuries_detected = fst counts,
            data_high_priority_injuries = snd counts,
            data_report_type = js_or (str_field (reportType b)) (JStr ''automated''),
            data_status = ''draft''\<rparr>
          = Some (reportData b sid rid (getUserIdFromAuth h) t counts g)"
          by (simp add: stored_as_sent_def score_column_num_field report_type_str_field
              reportData_def str_field_Some)
        with v Some counts g show ?thesis by (simp add: eq simps)
      qed
    qed
  qed
qed

section \<open>Properties\<close>

text \<open>
  C1 (as amended). For a request that carries an image: when the pose model file is absent
  the handler answers 200 with the canned payload (\<open>success: true\<close>, the three placeholder
  keypoints, the three recommendation strings), whatever the image, and spawns no process;
  when the pose model is present and the bumblefoot model is absent it answers 500 with
  \<open>success: false\<close> and the error "Bumblefoot classification model not found", and spawns
  no process either.
\<close>

theorem detect_absent_artifact:
  assumes "req_file req = Some f"
  shows "(modelPath d \<notin> fs \<longrightarrow>
            sent (detect parse d run fs req) = Some \<lparr>status = 200, body = mock_payload\<rparr>
            \<and> spawned (detect parse d run fs req) = [])
         \<and> (modelPath d \<in> fs \<and> bumblefootModelPath d \<notin> fs \<longrightarrow>
            sent (detect parse d run fs req) =
              Some \<lparr>status = 500,
                    body = JObj [(''success'', JBool False),
                                 (''error'', JStr ''Bumblefoot classification model not found'')]\<rparr>
            \<and> spawned (detect parse d run fs req) = [])
         \<and> get_prop mock_payload ''success'' = JBool True
         \<and> get_prop mock_payload ''keypoints'' =
             JArr [keypoint ''beak_tip'' 100 50 (9 / 10), keypoint ''eye'' 120 60 (85 / 100),
                   keypoint ''comb_top'' 110 30 (8 / 10)]
         \<and> get_prop mock_payload ''recommendations'' =
             JArr [JStr ''AI models not deployed - showing mock data'',
                   JStr ''Upload successful - frontend integration working'',
                   JStr ''Deploy AI models to Railway to enable real analysis'']"
proof (intro conjI impI)
  assume "modelPath d \<notin> fs"
  from detect_no_model [OF assms this]
  show "sent (detect parse d run fs req) = Some \<lparr>status = 200, body = mock_payload\<rparr>"
    and "spawned (detect parse d run fs req) = []"
    by (simp_all add: respond_def res_json_def)
next
  assume a: "modelPath d \<in> fs \<and> bumblefootModelPath d \<notin> fs"
  from detect_no_bumblefoot [OF assms] a
  show "sent (detect parse d run fs req) =
          Some \<lparr>status = 500,
                body = JObj [(''success'', JBool False),
                             (''error'', JStr ''Bumblefoot classification model not found'')]\<rparr>"
    and "spawned (detect parse d run fs req) = []"
    by (simp_all add: respond_def res_status_json_def error_body_def)
next
  show "get_prop mock_payload ''success'' = JBool True"
    by (simp add: mock_payload_def)
  show "get_prop mock_payload ''keypoints'' =
          JArr [keypoint ''beak_tip'' 100 50 (9 / 10), keypoint ''eye'' 120 60 (85 / 100),
                keypoint ''comb_top'' 110 30 (8 / 10)]"
    by (simp add: mock_payload_def mock_keypoints_def)
  show "get_prop mock_payload ''recommendations'' =
          JArr [JStr ''AI models not deployed - showing mock data'',
                JStr ''Upload successful - frontend integration working'',
                JStr ''Deploy AI models to Railway to enable real analysis'']"
    by (simp add: mock_payload_def mock_recommendations_def)
qed


theorem detect_absent_artifact_witness:
  "sent (detect JSON_parse example_deployment never_exits {''uploads/image-1.jpg''} example_request)
     = Some \<lparr>status = 200, body = mock_payload\<rparr>
   \<and> spawned (detect JSON_parse example_deployment never_exits {''uploads/image-1.jpg''} example_request) = []
   \<and> sent (detect JSON_parse example_deployment never_exits pose_model_only example_request)
     = Some \<lparr>status = 500,
              body = JObj [(''success'', JBool False),
                           (''error'', JStr ''Bumblefoot classification model not found'')]\<rparr>"
  using detect_absent_artifact [of example_request "\<lparr>path = ''uploads/image-1.jpg''\<rparr>"
      example_deployment "{''uploads/image-1.jpg''}" JSON_parse never_exits]
    detect_absent_artifact [of example_request "\<lparr>path = ''uploads/image-1.jpg''\<rparr>"
      example_deployment pose_model_only JSON_parse never_exits]
  by (simp add: example_request_def example_deployment_def pose_model_only_def)

text \<open>
  C1 as stated fails: with the pose model deployed and the bumblefoot model absent the
  answer is the 500 error, not the canned success payload.
\<close>

theorem detect_bumblefoot_absent_counterexample:
  "bumblefootModelPath example_deployment \<notin> pose_model_only
   \<and> req_file example_request = Some \<lparr>path = ''uploads/image-1.jpg''\<rparr>
   \<and> sent (detect JSON_parse example_deployment never_exits pose_model_only example_request)
       = Some \<lparr>status = 500, body = error_body ''Bumblefoot classification model not found''\<rparr>
   \<and> sent (detect JSON_parse example_deployment never_exits pose_model_only example_request)
       \<noteq> Some \<lparr>status = 200, body = mock_payload\<rparr>"
  by (simp add: detect_def example_request_def example_deployment_def pose_model_only_def
      respond_def res_status_json_def)

text \<open>
  C2. The claim asks for the uploaded image to be removed on every branch. On the branch
  taken when the pose model is absent the handler returns the canned payload without
  calling \<open>fs.unlinkSync\<close>: the uploaded file is still on disk afterwards.
\<close>

theorem detect_mock_keeps_upload:
  assumes "req_file req = Some f" and "path f \<in> fs" and "modelPath d \<notin> fs"
  shows "sent (detect parse d run fs req) = Some \<lparr>status = 200, body = mock_payload\<rparr>
         \<and> path f \<in> files (detect parse d run fs req)
         \<and> unlinked (detect parse d run fs req) = []"
  using detect_no_model [OF assms(1,3)] assms(2)
  by (simp add: respond_def res_json_def)

theorem detect_mock_keeps_upload_witness:
  "''uploads/image-1.jpg'' \<in> files (detect JSON_parse example_deployment never_exits {''uploads/image-1.jpg''} example_request)
   \<and> unlinked (detect JSON_parse example_deployment never_exits {''uploads/image-1.jpg''} example_request) = []"
  using detect_mock_keeps_upload [of example_request "\<lparr>path = ''uploads/image-1.jpg''\<rparr>"
      "{''uploads/image-1.jpg''}" example_deployment JSON_parse never_exits]
  by (simp add: example_request_def example_deployment_def)







text \<open>
  C4. The claim asks for \<open>high\<close> whenever an entry of \<open>injury_detections\<close> is severe, and
  for \<open>medium\<close> or \<open>low\<close> otherwise. The mappers compute the legacy severity of one and
  the same row differently. For a row with a severe entry and a confidence of at most 0.8,
  \<open>getScans\<close> answers \<open>high\<close> and \<open>getScanById\<close> answers \<open>medium\<close> or \<open>low\<close>. For a row
  without entries and a confidence above 0.8, which is what \<open>createScan\<close> stores for a scan
  without injuries, \<open>getScanById\<close> and \<open>createScan\<close> answer \<open>high\<close> and \<open>getScans\<close> answers
  \<open>low\<close>.
\<close>

theorem scan_severity_mappers_disagree:
  "(injury_detections scan = JArr xs \<and> \<not> list_ex is_nullish xs
      \<and> (\<exists>e\<in>set xs. get_prop e ''severity'' = JStr ''severe'')
      \<and> analysis_confidence scan = Some c \<and> c \<le> 8 / 10
    \<longrightarrow> map_option severity (getScans_legacy scan) = Some High
        \<and> map_option severity (getScanById_legacy scan)
            = Some (if c > 5 / 10 then Medium else Low))
   \<and> (injury_detections scan = JArr [] \<and> analysis_confidence scan = Some c \<and> c > 8 / 10
    \<longrightarrow> map_option severity (getScanById_legacy scan) = Some High
        \<and> map_option severity (createScan_legacy scan) = Some High
        \<and> map_option severity (getScans_legacy scan) = Some Low)"
proof (intro conjI impI)
  assume a: "injury_detections scan = JArr xs \<and> \<not> list_ex is_nullish xs
      \<and> (\<exists>e\<in>set xs. get_prop e ''severity'' = JStr ''severe'')
      \<and> analysis_confidence scan = Some c \<and> c \<le> 8 / 10"
  then obtain ts where ts: "injury_types xs = Some ts"
    using injury_types_total by blast
  from a have sv: "some_severe xs = Some True"
    using some_severe_True by blast
  from a obtain y ys where xs: "xs = y # ys" by (cases xs) auto
  have "severity_from_injuries (JArr (y # ys)) = Some High"
    using sv [unfolded xs] by (simp add: severity_from_injuries_def del: some_severe.simps)
  with a ts xs show "map_option severity (getScans_legacy scan) = Some High"
    by (simp add: getScans_legacy_def legacy_injuries_def del: some_severe.simps injury_types.simps)
  from a ts show "map_option severity (getScanById_legacy scan)
            = Some (if c > 5 / 10 then Medium else Low)"
    by (simp add: getScanById_legacy_def legacy_injuries_def severity_from_confidence_def)
next
  assume a: "injury_detections scan = JArr [] \<and> analysis_confidence scan = Some c \<and> c > 8 / 10"
  then show "map_option severity (getScanById_legacy scan) = Some High"
    by (simp add: getScanById_legacy_def legacy_injuries_def severity_from_confidence_def)
  from a show "map_option severity (createScan_legacy scan) = Some High"
    by (simp add: createScan_legacy_def legacy_injuries_def severity_from_confidence_def)
  from a show "map_option severity (getScans_legacy scan) = Some Low"
    by (simp add: getScans_legacy_def legacy_injuries_def severity_from_injuries_def)
qed

theorem scan_severity_mappers_disagree_witness:
  "injury_detections severe_scan
     = JArr [JObj [(''type'', JStr ''wing_injury''), (''severity'', JStr ''severe'')]]
   \<and> analysis_confidence severe_scan = Some (3 / 10)
   \<and> map_option severity (getScans_legacy severe_scan) = Some High
   \<and> map_option severity (getScanById_legacy severe_scan) = Some Low
   \<and> injury_detections clean_scan = JArr []
   \<and> analysis_confidence clean_scan = Some (95 / 100)
   \<and> map_option severity (getScanById_legacy clean_scan) = Some High
   \<and> map_option severity (createScan_legacy clean_scan) = Some High
   \<and> map_option severity (getScans_legacy clean_scan) = Some Low"
  using scan_severity_mappers_disagree [of severe_scan
      "[JObj [(''type'', JStr ''wing_injury''), (''severity'', JStr ''severe'')]]" "3 / 10"]
    scan_severity_mappers_disagree [of clean_scan "[]" "95 / 100"]
  by (simp add: severe_scan_def clean_scan_def is_nullish_def)

text \<open>
  C5. The handler's comment promises to find the JSON when the output has other text before
  or after it. When the text before the object has an opening brace, or the text after it a
  closing one, the match is not the object but a longer text, and the answer is the parse
  failure whenever \<open>JSON.parse\<close> rejects that text.
\<close>

theorem braces_around_object_break_extraction:
  assumes "CHR ''{'' \<in> set pre \<or> CHR ''}'' \<in> set post"
    and "exit_code pr = Some 0"
    and "stdout pr = pre @ (CHR ''{'' # mid @ ''}'') @ post"
  shows "\<exists>m. jsonMatch (stdout pr) = Some m \<and> m \<noteq> CHR ''{'' # mid @ ''}''
           \<and> (\<forall>message. parse m = Inl message \<longrightarrow>
                  close_response parse pr = parse_failure message (stdout pr))"
proof -
  have "\<exists>p a b. stdout pr = p @ CHR ''{'' # a @ CHR ''}'' # b"
    using assms(3) by (intro exI [of _ pre] exI [of _ mid] exI [of _ post]) simp
  then have "jsonMatch (stdout pr) \<noteq> None"
    by (simp add: jsonMatch_None_iff)
  then obtain m where m: "jsonMatch (stdout pr) = Some m" by blast
  have "m \<noteq> CHR ''{'' # mid @ ''}''"
  proof
    assume "m = CHR ''{'' # mid @ ''}''"
    with m assms(3) jsonMatch_object_only_if [of pre mid post] assms(1) show False by simp
  qed
  moreover have "close_response parse pr = parse_failure message (stdout pr)"
    if "parse m = Inl message" for message
    using that m assms(2) by (simp add: close_response_def)
  ultimately show ?thesis using m by blast
qed

theorem braces_around_object_break_extraction_witness:
  \<open>noisy_output = ''cfg={x} '' @ ''{"success":true}''
   \<and> JSON_parse ''{"success":true}'' = Inr [(''success'', JBool True)]
   \<and> jsonMatch noisy_output = Some ''{x} {"success":true}''
   \<and> status (close_response JSON_parse (exited 0 noisy_output [])) = 500
   \<and> get_prop (body (close_response JSON_parse (exited 0 noisy_output []))) ''success''
       = JBool False\<close>
proof -
  have s: \<open>stdout (exited 0 noisy_output []) = ''cfg={x} '' @ (CHR ''{'' # ''"success":true'' @ ''}'') @ []\<close>
    by (simp add: exited_def noisy_output_def)
  from braces_around_object_break_extraction [of "''cfg={x} ''" "[]" "exited 0 noisy_output []"
      \<open>''"success":true''\<close> JSON_parse, OF _ _ s]
  obtain m where m: "jsonMatch (stdout (exited 0 noisy_output [])) = Some m"
    and f: "\<forall>message. JSON_parse m = Inl message \<longrightarrow>
          close_response JSON_parse (exited 0 noisy_output [])
            = parse_failure message (stdout (exited 0 noisy_output []))"
    by (auto simp: exited_def)
  from m have m': \<open>m = ''{x} {"success":true}''\<close>
    by (simp add: exited_def jsonMatch_noisy_output)
  from f m' have "close_response JSON_parse (exited 0 noisy_output [])
       = parse_failure syntax_error_message (stdout (exited 0 noisy_output []))"
    by (simp add: JSON_parse_noisy_match)
  then show ?thesis
    by (simp add: JSON_parse_success_object jsonMatch_noisy_output parse_failure_def
        res_status_json_def error_body_def)
       (simp add: noisy_output_def)
qed

text \<open>
  C6. When the image is on disk, the artifacts are present and the spawned process exits
  with a status other than 0 (or is ended by a signal), the answer is 500 with
  \<open>success: false\<close>, its error is "Pose detection failed: " followed by the text captured
  from the standard error, and the uploaded file has been removed, by one call of
  \<open>fs.unlinkSync\<close>.
\<close>

theorem nonzero_exit_reports_stderr:
  assumes "req_file req = Some f" and "path f \<in> fs"
    and "modelPath d \<in> fs" and "bumblefootModelPath d \<in> fs" and "sequentialScriptPath d \<in> fs"
    and "run [sequentialScriptPath d, path f, modelPath d, bumblefootModelPath d] = Some pr"
    and "exit_code pr \<noteq> Some 0"
  shows "sent (detect parse d run fs req)
           = Some \<lparr>status = 500,
                   body = JObj [(''success'', JBool False),
                                (''error'', JStr (''Pose detection failed: '' @ stderr pr))]\<rparr>
     \<and> path f \<notin> files (detect parse d run fs req)
     \<and> unlinked (detect parse d run fs req) = [path f]"
  using detect_spawned [of req f d fs run pr parse] assms
  by (simp add: close_response_def res_status_json_def error_body_def)

theorem nonzero_exit_reports_stderr_witness:
  "sent (detect JSON_parse example_deployment (exits_with (Some 1) [] ''Traceback: no module named ultralytics'')
           all_deployed example_request)
     = Some \<lparr>status = 500,
              body = JObj [(''success'', JBool False),
                           (''error'', JStr ''Pose detection failed: Traceback: no module named ultralytics'')]\<rparr>
   \<and> ''uploads/image-1.jpg'' \<notin> files (detect JSON_parse example_deployment
           (exits_with (Some 1) [] ''Traceback: no module named ultralytics'') all_deployed example_request)"
  using nonzero_exit_reports_stderr [of example_request "\<lparr>path = ''uploads/image-1.jpg''\<rparr>"
      all_deployed example_deployment
      "exits_with (Some 1) [] ''Traceback: no module named ultralytics''"
      "\<lparr>exit_code = Some 1, stdout = [], stderr = ''Traceback: no module named ultralytics''\<rparr>"
      JSON_parse]
  by (simp add: example_request_def example_deployment_def all_deployed_def exits_with_def)


text \<open>
  C7. When the process exits with status 0 and its output has no opening brace followed
  later by a closing brace, the answer is 500 with \<open>success: false\<close>; its error is the
  "No JSON found in output" message followed by the raw output, and the uploaded file has
  been removed.
\<close>

theorem no_json_in_output:
  assumes "req_file req = Some f" and "path f \<in> fs"
    and "modelPath d \<in> fs" and "bumblefootModelPath d \<in> fs" and "sequentialScriptPath d \<in> fs"
    and "run [sequentialScriptPath d, path f, modelPath d, bumblefootModelPath d] = Some pr"
    and "exit_code pr = Some 0"
    and "\<not> (\<exists>pre mid post. stdout pr = pre @ CHR ''{'' # mid @ CHR ''}'' # post)"
  shows "sent (detect parse d run fs req)
           = Some \<lparr>status = 500,
                   body = JObj [(''success'', JBool False),
                                (''error'', JStr (''Failed to parse sequential analysis results: ''
                                   @ ''No JSON found in output'' @ ''. Output: '' @ stdout pr))]\<rparr>
     \<and> path f \<notin> files (detect parse d run fs req)"
proof -
  from assms(8) have "jsonMatch (stdout pr) = None"
    by (simp add: jsonMatch_None_iff)
  with detect_spawned [of req f d fs run pr parse] assms(1-7) show ?thesis
    by (simp add: close_response_def parse_failure_def res_status_json_def error_body_def)
qed

theorem no_json_in_output_witness:
  "sent (detect JSON_parse example_deployment (exits_with (Some 0) ''Killed'' []) all_deployed
           example_request)
     = Some \<lparr>status = 500,
              body = JObj [(''success'', JBool False),
                           (''error'', JStr ''Failed to parse sequential analysis results: No JSON found in output. Output: Killed'')]\<rparr>
   \<and> ''uploads/image-1.jpg'' \<notin> files (detect JSON_parse example_deployment
           (exits_with (Some 0) ''Killed'' []) all_deployed example_request)"
proof -
  have "\<not> (\<exists>pre mid post. ''Killed'' = pre @ CHR ''{'' # mid @ CHR ''}'' # post)"
    by (rule no_braces_no_split) simp
  with no_json_in_output [of example_request "\<lparr>path = ''uploads/image-1.jpg''\<rparr>"
      all_deployed example_deployment "exits_with (Some 0) ''Killed'' []"
      "\<lparr>exit_code = Some 0, stdout = ''Killed'', stderr = []\<rparr>" JSON_parse]
  show ?thesis
    by (simp add: example_request_def example_deployment_def all_deployed_def exits_with_def)
qed





text \<open>
  C9. When a report is created (status 201), the request's \<open>scanId\<close> identifies a scan of
  the resolved user in the table as it was read; the one row appended to \<open>health_reports\<close>,
  which the response reports, has \<open>total_injuries_detected\<close> equal to the number of entries
  of that scan's \<open>injury_detections\<close> array (0 when it is not an array) and
  \<open>high_priority_injuries\<close> equal to the number of those entries whose \<open>severity\<close> is
  \<open>severe\<close>. The scans are left as they were, and a later call of the handler leaves the
  rows written so far as they are: the counts are a snapshot.
\<close>

theorem createReport_counts_snapshot:
  assumes "status (reply (createReport db gen h b)) = 201"
  shows "\<exists>sid scan report.
           scanId b = Some sid \<and> scan \<in> set (scans db) \<and> scan_id scan = sid
           \<and> scan_user_id scan = getUserIdFromAuth h
           \<and> health_reports (stored (createReport db gen h b)) = health_reports db @ [report]
           \<and> scans (stored (createReport db gen h b)) = scans db
           \<and> get_prop (body (reply (createReport db gen h b))) ''data'' = mappedReport report
           \<and> report_scan_id report = sid
           \<and> total_injuries_detected report
               = (case injury_detections scan of JArr xs \<Rightarrow> length xs | _ \<Rightarrow> 0)
           \<and> high_priority_injuries report
               = (case injury_detections scan of
                    JArr xs \<Rightarrow> length (filter (\<lambda>e. get_prop e ''severity'' = JStr ''severe'') xs)
                  | _ \<Rightarrow> 0)
           \<and> prefix (health_reports (stored (createReport db gen h b)))
                 (health_reports (stored (createReport (stored (createReport db gen h b)) gen' h' b')))"
proof -
  from assms obtain sid rid t scan counts g where
    sid: "scanId b = Some sid"
    and sc: "select_scan db sid (getUserIdFromAuth h) = Some scan"
    and c: "injury_counts (injury_detections scan) = Some counts"
    and eq: "createReport db gen h b =
       \<lparr>reply = res_status_json 201
          (JObj [(''data'', mappedReport (reportData b sid rid (getUserIdFromAuth h) t counts g)),
                 (''success'', JBool True)]),
        stored = db\<lparr>health_reports := health_reports db
           @ [reportData b sid rid (getUserIdFromAuth h) t counts g]\<rparr>\<rparr>"
    by (rule createReport_created)
  let ?r = "reportData b sid rid (getUserIdFromAuth h) t counts g"
  from select_scan_Some [OF sc] injury_counts_Some [OF c] sid
    createReport_keeps_rows [of "stored (createReport db gen h b)" gen' h' b']
  show ?thesis
    unfolding eq
    by (intro exI [of _ sid] exI [of _ scan] exI [of _ ?r])
       (simp add: res_status_json_def reportData_def)
qed


theorem createReport_counts_snapshot_witness:
  "status (reply (createReport example_database (Some example_generated) None weekly_request)) = 201
   \<and> map total_injuries_detected
         (health_reports (stored (createReport example_database (Some example_generated) None
            weekly_request))) = [3]
   \<and> map high_priority_injuries
         (health_reports (stored (createReport example_database (Some example_generated) None
            weekly_request))) = [1]"
proof -
  let ?out = "createReport example_database (Some example_generated) None weekly_request"
  from createReport_counts_snapshot [OF createReport_weekly_status, of None None empty_request]
  obtain sid scan report where
    sid: "scanId weekly_request = Some sid"
    and scan: "scan \<in> set (scans example_database)" "scan_id scan = sid"
    and rows: "health_reports (stored ?out) = health_reports example_database @ [report]"
    and total: "total_injuries_detected report
                  = (case injury_detections scan of JArr xs \<Rightarrow> length xs | _ \<Rightarrow> 0)"
    and high: "high_priority_injuries report
                 = (case injury_detections scan of
                      JArr xs \<Rightarrow> length (filter (\<lambda>e. get_prop e ''severity'' = JStr ''severe'') xs)
                    | _ \<Rightarrow> 0)"
    by blast
  from sid have "sid = ''scan-1''"
    by (simp add: weekly_request_def empty_request_def)
  with scan have "scan = own_scan"
    by (auto simp: example_database_def own_scan_def foreign_scan_def)
  with total high have "total_injuries_detected report = 3" "high_priority_injuries report = 1"
    by (simp_all add: own_scan_def)
  with rows createReport_weekly_status show ?thesis
    by (simp add: example_database_def)
qed


text \<open>
  C10. The user identifier resolved from the Authorization header does not depend on the
  header: for an absent header, a malformed one and a well-formed bearer token alike,
  \<open>getUserIdFromAuth\<close> returns the fixed UUID 00000000-0000-0000-0000-000000000001. Any two
  requests resolve to the same user, and a handler that filters rows by it, here
  \<open>createReport\<close>, does the same for every header.
\<close>

theorem getUserIdFromAuth_constant:
  "getUserIdFromAuth h = ''00000000-0000-0000-0000-000000000001''
   \<and> getUserIdFromAuth h = getUserIdFromAuth h'
   \<and> createReport db gen h b = createReport db gen h' b"
proof -
  have c: "getUserIdFromAuth x = ''00000000-0000-0000-0000-000000000001''" for x
    by (simp add: getUserIdFromAuth_def placeholder_uuid_def Let_def split: option.split)
  show ?thesis
    by (simp add: c createReport_def)
qed

theorem getUserIdFromAuth_constant_witness:
  "getUserIdFromAuth None = ''00000000-0000-0000-0000-000000000001''
   \<and> getUserIdFromAuth (Some ''Basic abc'') = ''00000000-0000-0000-0000-000000000001''
   \<and> getUserIdFromAuth (Some ''Bearer eyJhbGciOi'') = getUserIdFromAuth None
   \<and> createReport example_database None (Some ''Bearer eyJhbGciOi'') weekly_request
       = createReport example_database None None weekly_request"
  using getUserIdFromAuth_constant [of None None example_database None weekly_request]
    getUserIdFromAuth_constant [of "Some ''Basic abc''" None example_database None weekly_request]
    getUserIdFromAuth_constant [of "Some ''Bearer eyJhbGciOi''" None example_database None
      weekly_request]
  by simp

end
